theory Spec2Isabelle
  imports Main "HOL-Library.Sublist"
begin

section \<open>Data model (models.go)\<close>

text \<open>
  \<^verbatim>\<open>Language\<close> and \<^verbatim>\<open>QuestionType\<close> are Go string types with two named constants each;
  the zero value (the empty string) is a third value the decoder can leave in a question.
  Go strings are byte sequences, so a \<^typ>\<open>string\<close> here is the list of bytes of the
  UTF-8 text.
\<close>

type_synonym Language = string

definition Spanish :: Language where
  \<open>Spanish = ''es''\<close>

definition English :: Language where
  \<open>English = ''en''\<close>

type_synonym QuestionType = string

definition Radio :: QuestionType where
  \<open>Radio = ''radio''\<close>

definition Checkbox :: QuestionType where
  \<open>Checkbox = ''checkbox''\<close>

record Option =
  Value :: string
  Label :: string

record Question =
  ID :: string
  Title :: string
  Type :: QuestionType
  Options :: \<open>Option list\<close>
  Required :: bool
  ConditionalOn :: string

record ConversationSection =
  Title :: string
  Label :: string
  Placeholder :: string

record Chapter =
  Number :: int
  Language :: Language
  Title :: string
  Heading :: string
  Questions :: \<open>Question list\<close>
  Conversation :: ConversationSection
  EmailLabel :: string
  EmailPlaceH :: string
  SubmitText :: string
  ResetText :: string
  SuccessMsg :: string
  SummaryTitle :: string
  ChapterName :: string
  HasCustomCSS :: bool
  HasCustomJS :: bool

text \<open>Non-ASCII text of the defaults, as its UTF-8 bytes.\<close>

definition e_acute :: string where
  \<open>e_acute = [CHR 0xC3, CHR 0xA9]\<close>

definition o_acute :: string where
  \<open>o_acute = [CHR 0xC3, CHR 0xB3]\<close>

definition i_acute :: string where
  \<open>i_acute = [CHR 0xC3, CHR 0xAD]\<close>

definition inverted_exclamation :: string where
  \<open>inverted_exclamation = [CHR 0xC2, CHR 0xA1]\<close>

definition check_mark :: string where
  \<open>check_mark = [CHR 0xE2, CHR 0x9C, CHR 0x93]\<close>

text \<open>The zero value of \<^verbatim>\<open>Chapter\<close>: what the fields a composite literal omits hold.\<close>

definition zeroConversation :: ConversationSection where
  \<open>zeroConversation =
     \<lparr>ConversationSection.Title = [], ConversationSection.Label = [], Placeholder = []\<rparr>\<close>

definition zeroChapter :: Chapter where
  \<open>zeroChapter =
     \<lparr>Number = 0, Language = [], Chapter.Title = [], Heading = [], Questions = [],
      Conversation = zeroConversation, EmailLabel = [], EmailPlaceH = [], SubmitText = [],
      ResetText = [], SuccessMsg = [], SummaryTitle = [], ChapterName = [],
      HasCustomCSS = False, HasCustomJS = False\<rparr>\<close>

definition LanguageDefaults :: \<open>Language \<Rightarrow> Chapter\<close> where
  \<open>LanguageDefaults lang =
     (if lang = English then
        zeroChapter\<lparr>
          Language := English,
          Heading := ''After watching the video, complete this exercise:'',
          EmailLabel := ''Email Address'',
          EmailPlaceH := ''example@email.com'',
          SubmitText := ''Submit Survey'',
          ResetText := ''Clear'',
          SuccessMsg := check_mark @ '' Survey submitted successfully!'',
          SummaryTitle := ''Summary of your answers'',
          Conversation := zeroConversation\<lparr>
            ConversationSection.Title := ''Discuss:'',
            Placeholder := ''Write your answer here...''\<rparr>\<rparr>
      else
        zeroChapter\<lparr>
          Language := Spanish,
          Heading := ''Despu'' @ e_acute @ ''s de ver el video, realiza este ejercicio:'',
          EmailLabel := ''Correo Electr'' @ o_acute @ ''nico'',
          EmailPlaceH := ''ejemplo@correo.com'',
          SubmitText := ''Enviar Encuesta'',
          ResetText := ''Limpiar'',
          SuccessMsg := check_mark @ '' '' @ inverted_exclamation @
            ''Encuesta enviada correctamente!'',
          SummaryTitle := ''Resumen de tus respuestas'',
          Conversation := zeroConversation\<lparr>
            ConversationSection.Title := ''Conversen:'',
            Placeholder := ''Escribe tu respuesta aqu'' @ i_acute @ ''...''\<rparr>\<rparr>)\<close>


definition ChapterLabel :: \<open>Language \<Rightarrow> string\<close> where
  \<open>ChapterLabel lang =
     (if lang = English then ''Chapter'' else ''Cap'' @ i_acute @ ''tulo'')\<close>

section \<open>The Go library functions the code calls\<close>

text \<open>
  \<^verbatim>\<open>html.EscapeString\<close> escapes the five characters \<^verbatim>\<open>< > & ' "\<close>, each one
  independently, in a single pass.
\<close>

definition escapeChar :: \<open>char \<Rightarrow> string\<close> where
  \<open>escapeChar c =
     (if c = CHR ''&'' then ''&amp;''
      else if c = CHR 0x27 then ''&#39;''
      else if c = CHR ''<'' then ''&lt;''
      else if c = CHR ''>'' then ''&gt;''
      else if c = CHR 0x22 then ''&#34;''
      else [c])\<close>

definition EscapeString :: \<open>string \<Rightarrow> string\<close> where
  \<open>EscapeString s = concat (map escapeChar s)\<close>

text \<open>
  \<^verbatim>\<open>strings.ToUpper\<close> on the ASCII letters. Go also maps the letters beyond ASCII;
  the identifiers this program upper-cases (\<^verbatim>\<open>q1\<close>, \<^verbatim>\<open>q2\<close>, ...) are ASCII, and the
  result only lands in comments of the generated page.
\<close>

definition upperChar :: \<open>char \<Rightarrow> char\<close> where
  \<open>upperChar c =
     (case map_of (zip ''abcdefghijklmnopqrstuvwxyz'' ''ABCDEFGHIJKLMNOPQRSTUVWXYZ'') c of
        Some u \<Rightarrow> u
      | None \<Rightarrow> c)\<close>

definition ToUpper :: \<open>string \<Rightarrow> string\<close> where
  \<open>ToUpper s = map upperChar s\<close>

text \<open>\<^verbatim>\<open>%d\<close> of \<^verbatim>\<open>fmt.Sprintf\<close>: decimal digits, a minus sign for a negative number.\<close>

definition digitChar :: \<open>nat \<Rightarrow> char\<close> where
  \<open>digitChar d = ''0123456789'' ! d\<close>

fun natToDec :: \<open>nat \<Rightarrow> string\<close> where
  \<open>natToDec n = (if n < 10 then [digitChar n] else natToDec (n div 10) @ [digitChar (n mod 10)])\<close>

declare natToDec.simps [simp del]

definition itoa :: \<open>int \<Rightarrow> string\<close> where
  \<open>itoa i = (if i < 0 then ''-'' @ natToDec (nat (- i)) else natToDec (nat i))\<close>

text \<open>\<^verbatim>\<open>strings.ReplaceAll\<close> for a non-empty \<^verbatim>\<open>old\<close>: leftmost occurrences, not overlapping.\<close>

fun ReplaceAll :: \<open>string \<Rightarrow> string \<Rightarrow> string \<Rightarrow> string\<close> where
  \<open>ReplaceAll [] old new = []\<close>
| \<open>ReplaceAll (c # s) old new =
     (if old \<noteq> [] \<and> prefix old (c # s)
      then new @ ReplaceAll (drop (length old) (c # s)) old new
      else c # ReplaceAll s old new)\<close>

text \<open>
  \<^verbatim>\<open>strings.Index\<close>: the position of the first occurrence, \<open>None\<close> where Go
  returns \<^verbatim>\<open>-1\<close>; \<^verbatim>\<open>strings.Contains\<close> asks whether there is one.
\<close>

fun Index :: \<open>string \<Rightarrow> string \<Rightarrow> nat option\<close> where
  \<open>Index [] sub = (if sub = [] then Some 0 else None)\<close>
| \<open>Index (c # s) sub =
     (if prefix sub (c # s) then Some 0 else map_option Suc (Index s sub))\<close>

definition Contains :: \<open>string \<Rightarrow> string \<Rightarrow> bool\<close> where
  \<open>Contains s sub = (Index s sub \<noteq> None)\<close>

text \<open>
  \<^verbatim>\<open>strconv.Atoi\<close>: an optional sign and at least one decimal digit, nothing else; an
  error (\<open>None\<close>) also when the number does not fit the 64-bit \<^verbatim>\<open>int\<close>.
\<close>

definition isDigit :: \<open>char \<Rightarrow> bool\<close> where
  \<open>isDigit c = (c \<in> set ''0123456789'')\<close>

definition digitVal :: \<open>char \<Rightarrow> nat\<close> where
  \<open>digitVal c = of_char c - 48\<close>

definition digitsVal :: \<open>string \<Rightarrow> nat\<close> where
  \<open>digitsVal ds = foldl (\<lambda>a c. 10 * a + digitVal c) 0 ds\<close>

definition Atoi :: \<open>string \<Rightarrow> int option\<close> where
  \<open>Atoi s =
     (let (neg, ds) =
            (case s of
               [] \<Rightarrow> (False, [])
             | c # r \<Rightarrow>
                 if c = CHR ''-'' then (True, r)
                 else if c = CHR ''+'' then (False, r)
                 else (False, s))
      in if ds = [] \<or> \<not> list_all isDigit ds then None
         else
           (let v = int (digitsVal ds);
                n = (if neg then - v else v)
            in if n < - (2 ^ 63) \<or> 2 ^ 63 - 1 < n then None else Some n))\<close>

text \<open>
  \<^verbatim>\<open>strings.TrimSpace\<close> removes the leading and the trailing white space, as Unicode
  defines it: six ASCII characters, and the UTF-8 encodings of U+0085, U+00A0 (two
  bytes) and of U+1680, U+2000 to U+200A, U+2028, U+2029, U+202F, U+205F, U+3000 (three
  bytes).
\<close>

definition asciiSpace :: \<open>char \<Rightarrow> bool\<close> where
  \<open>asciiSpace c = (c \<in> set [CHR 0x09, CHR 0x0A, CHR 0x0B, CHR 0x0C, CHR 0x0D, CHR 0x20])\<close>

definition space2 :: \<open>string list\<close> where
  \<open>space2 = [[CHR 0xC2, CHR 0x85], [CHR 0xC2, CHR 0xA0]]\<close>

definition space3 :: \<open>string list\<close> where
  \<open>space3 =
     [[CHR 0xE1, CHR 0x9A, CHR 0x80],
      [CHR 0xE2, CHR 0x80, CHR 0x80], [CHR 0xE2, CHR 0x80, CHR 0x81],
      [CHR 0xE2, CHR 0x80, CHR 0x82], [CHR 0xE2, CHR 0x80, CHR 0x83],
      [CHR 0xE2, CHR 0x80, CHR 0x84], [CHR 0xE2, CHR 0x80, CHR 0x85],
      [CHR 0xE2, CHR 0x80, CHR 0x86], [CHR 0xE2, CHR 0x80, CHR 0x87],
      [CHR 0xE2, CHR 0x80, CHR 0x88], [CHR 0xE2, CHR 0x80, CHR 0x89],
      [CHR 0xE2, CHR 0x80, CHR 0x8A], [CHR 0xE2, CHR 0x80, CHR 0xA8],
      [CHR 0xE2, CHR 0x80, CHR 0xA9], [CHR 0xE2, CHR 0x80, CHR 0xAF],
      [CHR 0xE2, CHR 0x81, CHR 0x9F], [CHR 0xE3, CHR 0x80, CHR 0x80]]\<close>

text \<open>Dropping the white space at the head; \<open>p2\<close> and \<open>p3\<close> are the multi-byte
  encodings, to be given reversed when the text is.\<close>

fun trimHead :: \<open>string list \<Rightarrow> string list \<Rightarrow> string \<Rightarrow> string\<close> where
  \<open>trimHead p2 p3 [] = []\<close>
| \<open>trimHead p2 p3 (c # s) =
     (if asciiSpace c then trimHead p2 p3 s
      else if take 2 (c # s) \<in> set p2 then trimHead p2 p3 (drop 1 s)
      else if take 3 (c # s) \<in> set p3 then trimHead p2 p3 (drop 2 s)
      else c # s)\<close>

definition TrimSpace :: \<open>string \<Rightarrow> string\<close> where
  \<open>TrimSpace s =
     rev (trimHead (map rev space2) (map rev space3) (rev (trimHead space2 space3 s)))\<close>

section \<open>Encoder (generator)\<close>

definition hasCheckboxQuestions :: \<open>Chapter \<Rightarrow> bool\<close> where
  \<open>hasCheckboxQuestions ch = list_ex (\<lambda>q. Type q = Checkbox) (Questions ch)\<close>

definition hasConditionalQuestions :: \<open>Chapter \<Rightarrow> bool\<close> where
  \<open>hasConditionalQuestions ch = list_ex (\<lambda>q. ConditionalOn q \<noteq> []) (Questions ch)\<close>

text \<open>The inline style block a chapter with a checkbox question gets.\<close>

definition checkboxStyleRules :: string where
  \<open>checkboxStyleRules =
    ''        .checkbox-group {\<newline>'' @
    ''            display: flex;\<newline>'' @
    ''            flex-direction: column;\<newline>'' @
    ''            gap: 12px;\<newline>'' @
    ''        }\<newline>'' @
    ''\<newline>        .checkbox-option {\<newline>'' @
    ''            display: flex;\<newline>'' @
    ''            align-items: center;\<newline>'' @
    ''            padding: 12px;\<newline>'' @
    ''            border: 2px solid #e0e0e0;\<newline>'' @
    ''            border-radius: 8px;\<newline>'' @
    ''            cursor: pointer;\<newline>'' @
    ''            transition: all 0.3s ease;\<newline>'' @
    ''        }\<newline>'' @
    ''\<newline>        .checkbox-option:hover {\<newline>'' @
    ''            border-color: #667eea;\<newline>'' @
    ''            background-color: #f5f7ff;\<newline>'' @
    ''        }\<newline>'' @
    ''\<newline>        .checkbox-option input[type="checkbox"] {\<newline>'' @
    ''            margin-right: 12px;\<newline>'' @
    ''            cursor: pointer;\<newline>'' @
    ''            width: 18px;\<newline>'' @
    ''            height: 18px;\<newline>'' @
    ''        }\<newline>'' @
    ''\<newline>        .checkbox-option label {\<newline>'' @
    ''            cursor: pointer;\<newline>'' @
    ''            flex: 1;\<newline>'' @
    ''            color: #333;\<newline>'' @
    ''        }\<newline>'' @
    ''\<newline>        .checkbox-option input[type="checkbox"]:checked + label {\<newline>'' @
    ''            color: #667eea;\<newline>'' @
    ''            font-weight: 500;\<newline>'' @
    ''        }\<newline>'' @
    ''\<newline>        .hidden {\<newline>'' @
    ''            display: none;\<newline>'' @
    ''        }\<newline>'' @
    ''\<newline>        .conditional-section {\<newline>'' @
    ''            transition: opacity 0.3s ease;\<newline>'' @
    ''        }\<newline>''\<close>

definition checkboxStyle :: string where
  \<open>checkboxStyle = ''\<newline>    <style>\<newline>'' @ checkboxStyleRules @ ''    </style>''\<close>

text \<open>One radio option: \<^verbatim>\<open>i\<close> is the index of the range loop.\<close>

definition radioOptionHTML :: \<open>Question \<Rightarrow> nat \<Rightarrow> Option \<Rightarrow> string\<close> where
  \<open>radioOptionHTML q i opt =
     (let optID = ID q @ ''_'' @ itoa (int i + 1);
          requiredAttr = (if Required q \<and> i = 0 then '' required'' else [])
      in
    ''\<newline>                    <div class="option">\<newline>'' @
    ''                        <input type="radio" id="'' @
    optID @
    ''" name="'' @
    ID q @
    ''" value="'' @
    EscapeString (Value opt) @
    ''"'' @
    requiredAttr @
    ''>\<newline>'' @
    ''                        <label for="'' @
    optID @
    ''">'' @
    EscapeString (Option.Label opt) @
    ''</label>\<newline>'' @
    ''                    </div>'')\<close>

definition checkboxOptionHTML :: \<open>Question \<Rightarrow> nat \<Rightarrow> Option \<Rightarrow> string\<close> where
  \<open>checkboxOptionHTML q i opt =
     (let optID = ID q @ ''_'' @ itoa (int i + 1)
      in
    ''\<newline>                    <div class="checkbox-option">\<newline>'' @
    ''                        <input type="checkbox" id="'' @
    optID @
    ''" name="'' @
    ID q @
    ''" value="'' @
    EscapeString (Value opt) @
    ''">\<newline>'' @
    ''                        <label for="'' @
    optID @
    ''">'' @
    EscapeString (Option.Label opt) @
    ''</label>\<newline>'' @
    ''                    </div>'')\<close>

definition generateQuestionHTML :: \<open>Question \<Rightarrow> string\<close> where
  \<open>generateQuestionHTML q =
    ''\<newline>            <!-- '' @ ToUpper (ID q) @ '' -->'' @
    (if ConditionalOn q \<noteq> [] then
    ''\<newline>            <div class="question-section conditional-section hidden" id="'' @
    ID q @
    ''-section">''
     else
    ''\<newline>            <div class="question-section">'') @
    ''\<newline>                <div class="question-title">'' @
    EscapeString (Question.Title q) @
    ''</div>'' @
    (if Type q = Radio then
    ''\<newline>                <div class="options">'' @
       concat (map (\<lambda>(i, opt). radioOptionHTML q i opt) (enumerate 0 (Options q))) @
    ''\<newline>                </div>''
     else if Type q = Checkbox then
    ''\<newline>                <div class="checkbox-group">'' @
       concat (map (\<lambda>(i, opt). checkboxOptionHTML q i opt) (enumerate 0 (Options q))) @
    ''\<newline>                </div>''
     else []) @
    ''\<newline>            </div>''\<close>

text \<open>The listener block of one conditional question.\<close>

definition conditionalPairJS :: \<open>Chapter \<Rightarrow> Question \<Rightarrow> string\<close> where
  \<open>conditionalPairJS ch q =
     (let parentID = ConditionalOn q;
          childID = ID q;
          yesValue = (if Language ch = English then ''Yes'' else ''Si'');
          inputType = ''checkbox'';
          inputType = (if Type q = Checkbox then ''checkbox'' else inputType)
      in
    ''\<newline>            const '' @
    parentID @
    ''Radios = document.querySelectorAll('input[name="'' @
    parentID @
    ''"]');\<newline>'' @
    ''            const '' @
    childID @
    ''Section = document.getElementById('' @
    [CHR 0x27] @
    childID @
    ''-section');\<newline>'' @
    ''            const '' @
    childID @
    ''Inputs = document.querySelectorAll('#'' @
    childID @
    ''-section input[type="'' @
    inputType @
    ''"]');\<newline>'' @
    ''\<newline>            // '' @
    ToUpper parentID @
    '' -> '' @
    ToUpper childID @
    '' logic\<newline>'' @
    ''            '' @
    parentID @
    ''Radios.forEach(radio => {\<newline>'' @
    ''                radio.addEventListener('change', function() {\<newline>'' @
    ''                    if (this.value === '' @
    [CHR 0x27] @
    yesValue @
    [CHR 0x27] @
    '') {\<newline>'' @
    ''                        '' @
    childID @
    ''Section.classList.remove('hidden');\<newline>'' @
    ''                    } else {\<newline>'' @
    ''                        '' @
    childID @
    ''Section.classList.add('hidden');\<newline>'' @
    ''                        // Clear '' @
    ToUpper childID @
    '' selections\<newline>'' @
    ''                        '' @
    childID @
    ''Inputs.forEach(input => {\<newline>'' @
    ''                            input.checked = false;\<newline>'' @
    ''                        });\<newline>'' @
    ''                    }\<newline>'' @
    ''                });\<newline>'' @
    ''            });'')\<close>

definition generateConditionalJS :: \<open>Chapter \<Rightarrow> string\<close> where
  \<open>generateConditionalJS ch =
    ''\<newline>\<newline>    <script>\<newline>'' @
    ''        // Handle conditional questions\<newline>'' @
    ''        document.addEventListener('DOMContentLoaded', function() {'' @
    concat (map (\<lambda>q. if ConditionalOn q = [] then [] else conditionalPairJS ch q)
      (Questions ch)) @
    ''\<newline>        });\<newline>'' @
    ''    </script>''\<close>

text \<open>One entry of the \<^verbatim>\<open>window.surveyQuestions\<close> object, with the comma the loop
  writes after it.\<close>

definition surveyEntry :: \<open>Chapter \<Rightarrow> nat \<Rightarrow> Question \<Rightarrow> string\<close> where
  \<open>surveyEntry ch i q =
     (let jsTitle = ReplaceAll (Question.Title q) [CHR 0x22] [CHR 0x5C, CHR 0x22]
      in
    ''\<newline>            '' @
    ID q @
    '': "'' @
    jsTitle @
    ''"'' @
       (if int i < int (length (Questions ch)) - 1
           \<or> ConversationSection.Label (Conversation ch) \<noteq> []
        then '','' else []))\<close>

definition surveyConversationEntry :: \<open>Chapter \<Rightarrow> string\<close> where
  \<open>surveyConversationEntry ch =
     (if ConversationSection.Label (Conversation ch) \<noteq> [] then
        (let jsConvLabel =
               ReplaceAll (ConversationSection.Label (Conversation ch))
                 [CHR 0x22] [CHR 0x5C, CHR 0x22]
         in
    ''\<newline>            conversation: "'' @
    jsConvLabel @
    ''"'')
      else [])\<close>

text \<open>The fixed blocks: the verification widget and the library includes.\<close>

definition recaptchaBlock :: string where
  \<open>recaptchaBlock =
    ''\<newline>\<newline>            <!-- reCAPTCHA -->\<newline>'' @
    ''            <div class="question-section">\<newline>'' @
    ''                <div class="g-recaptcha" data-sitekey="6LeyoggsAAAAAAgXzEg9PAC9ypZtr-yyc24cAnN_"></div>\<newline>'' @
    ''                <div class="error-message" id="recaptchaError" style="display: none;"></div>\<newline>'' @
    ''            </div>''\<close>

definition libraryIncludes :: string where
  \<open>libraryIncludes =
    ''\<newline>\<newline>    <!-- EmailJS Library -->\<newline>'' @
    ''    <script src="https://cdn.jsdelivr.net/npm/emailjs-com@3/dist/email.min.js"></script>\<newline>'' @
    ''    <script>\<newline>'' @
    ''        (function() {\<newline>'' @
    ''            emailjs.init("wZ_Z4F9Y-8CcFzD2g"); // Replace with your EmailJS public key\<newline>'' @
    ''        })();\<newline>'' @
    ''    </script>\<newline>'' @
    ''\<newline>    <!-- Google reCAPTCHA v2 -->\<newline>'' @
    ''    <script src="https://www.google.com/recaptcha/api.js" async defer></script>\<newline>'' @
    ''\<newline>    <script src="survey.js?v=20250110005"></script>\<newline>'' @
    ''</body>\<newline>'' @
    ''</html>\<newline>''\<close>

text \<open>The script block with the metadata object and the chapter name.\<close>

definition metadataScript :: \<open>Chapter \<Rightarrow> string\<close> where
  \<open>metadataScript ch =
    ''\<newline>\<newline>    <script>'' @
    (if \<not> hasConditionalQuestions ch then ''\<newline>'' else []) @
    ''\<newline>        // Define questions for this survey\<newline>'' @
    ''        window.surveyQuestions = {'' @
    concat (map (\<lambda>(i, q). surveyEntry ch i q) (enumerate 0 (Questions ch))) @
    surveyConversationEntry ch @
    ''\<newline>        };\<newline>'' @
    ''\<newline>        // Define the chapter name for this survey\<newline>'' @
    ''        window.chapterName = "'' @
    ReplaceAll (ChapterName ch) [CHR 0x22] [CHR 0x5C, CHR 0x22] @
    ''";\<newline>'' @
    ''    </script>''\<close>

definition generateChapterHTML :: \<open>Chapter \<Rightarrow> string\<close> where
  \<open>generateChapterHTML ch =
     (let langCode = Language ch
      in
    ''<!DOCTYPE html>\<newline>'' @
    ''<html lang="'' @
    langCode @
    ''">\<newline>'' @
    ''<head>\<newline>'' @
    ''    <meta charset="UTF-8">\<newline>'' @
    ''    <meta name="viewport" content="width=device-width, initial-scale=1.0">\<newline>'' @
    ''    <title>'' @
    EscapeString (Chapter.Title ch) @
    ''</title>\<newline>'' @
    ''    <link rel="stylesheet" href="survey.css">'' @
    (if hasCheckboxQuestions ch then checkboxStyle else []) @
    ''\<newline></head>\<newline>'' @
    ''<body>\<newline>'' @
    ''    <div class="container">\<newline>'' @
    ''        <h1>'' @
    EscapeString (Heading ch) @
    ''</h1>\<newline>'' @
    ''        <form id="pollForm">'' @
    concat (map (\<lambda>q. ''\<newline>'' @ generateQuestionHTML q) (Questions ch)) @
    ''\<newline>\<newline>            <!-- Conversation Section -->\<newline>'' @
    ''            <div class="question-section">\<newline>'' @
    ''                <div class="question-title">'' @
    EscapeString (ConversationSection.Title (Conversation ch)) @
    ''</div>\<newline>'' @
    ''                <div class="text-input-section">\<newline>'' @
    ''                    <label for="conversation" style="color: #666; font-size: 14px;">'' @
    EscapeString (ConversationSection.Label (Conversation ch)) @
    ''</label>\<newline>'' @
    ''                    <textarea id="conversation" name="conversation" placeholder="'' @
    EscapeString (Placeholder (Conversation ch)) @
    ''" required></textarea>\<newline>'' @
    ''                    <div class="error-message" id="textError" style="display: none;"></div>\<newline>'' @
    ''                </div>\<newline>'' @
    ''            </div>'' @
    ''\<newline>\<newline>            <!-- Email Section -->\<newline>'' @
    ''            <div class="question-section">\<newline>'' @
    ''                <div class="question-title"><label for="email">'' @
    EscapeString (EmailLabel ch) @
    ''</label></div>\<newline>'' @
    ''                <div class="text-input-section">\<newline>'' @
    ''                    <input type="email" id="email" name="email" placeholder="'' @
    EscapeString (EmailPlaceH ch) @
    ''" required>\<newline>'' @
    ''                    <div class="error-message" id="emailError" style="display: none;"></div>\<newline>'' @
    ''                </div>\<newline>'' @
    ''            </div>'' @
    recaptchaBlock @
    ''\<newline>\<newline>            <!-- Buttons -->\<newline>'' @
    ''            <div class="button-group">\<newline>'' @
    ''                <button type="submit" class="submit-btn" id="submitBtn">'' @
    EscapeString (SubmitText ch) @
    ''</button>\<newline>'' @
    ''                <button type="reset" class="reset-btn" id="resetBtn">'' @
    EscapeString (ResetText ch) @
    ''</button>\<newline>'' @
    ''            </div>\<newline>'' @
    ''        </form>'' @
    ''\<newline>\<newline>        <!-- Success Message -->\<newline>'' @
    ''        <div class="success-message" id="successMessage">\<newline>'' @
    ''            '' @
    SuccessMsg ch @
    ''\<newline>        </div>'' @
    ''\<newline>\<newline>        <!-- Summary Section -->\<newline>'' @
    ''        <div class="summary-section" id="summarySection" style="display: none;">\<newline>'' @
    ''            <h2 class="summary-title">'' @
    EscapeString (SummaryTitle ch) @
    ''</h2>\<newline>'' @
    ''            <div id="summaryContent"></div>\<newline>'' @
    ''        </div>\<newline>'' @
    ''    </div>'' @
    (if hasConditionalQuestions ch then generateConditionalJS ch else []) @
    metadataScript ch @
    libraryIncludes)\<close>

section \<open>Edit operations (main.go)\<close>

definition replaceQuestionPrefix :: \<open>string \<Rightarrow> int \<Rightarrow> string\<close> where
  \<open>replaceQuestionPrefix title newNum =
     (case Index title '':'' of
        None \<Rightarrow> title
      | Some idx \<Rightarrow>
          (let pre = take idx title
           in if prefix ''Q'' pre then ''Q'' @ itoa newNum @ drop idx title else title))\<close>

text \<open>
  One round of the renumbering loop of \<^verbatim>\<open>removeQuestion\<close>, for the index \<open>i\<close>: the
  question at \<open>i\<close> gets its new id, every question whose \<^verbatim>\<open>ConditionalOn\<close> is the old id
  gets the new one, and the title of the question at \<open>i\<close> gets its new prefix. The loop
  runs over the indices of the slice, so \<open>i\<close> is always in range.
\<close>

definition renumberStep :: \<open>nat \<Rightarrow> Question list \<Rightarrow> Question list\<close> where
  \<open>renumberStep i qs =
     (let newID = ''q'' @ itoa (int i + 1);
          oldID = ID (qs ! i);
          qs1 = qs[i := (qs ! i)\<lparr>ID := newID\<rparr>];
          qs2 = map (\<lambda>q. if ConditionalOn q = oldID then q\<lparr>ConditionalOn := newID\<rparr> else q) qs1;
          qs3 = qs2[i := (qs2 ! i)\<lparr>Question.Title :=
                   replaceQuestionPrefix (Question.Title (qs2 ! i)) (int i + 1)\<rparr>]
      in qs3)\<close>

definition renumberQuestions :: \<open>Question list \<Rightarrow> Question list\<close> where
  \<open>renumberQuestions qs = fold renumberStep [0..<length qs] qs\<close>

text \<open>
  \<^verbatim>\<open>removeQuestion\<close> reads the number of the question from the terminal: \<open>idxStr\<close> is the
  line read. Where the Go function prints a message and returns, the chapter is left as
  it was and the model returns the error.
\<close>

datatype editError = NoQuestions | InvalidSelection

definition removeQuestion :: \<open>string \<Rightarrow> Chapter \<Rightarrow> editError + Chapter\<close> where
  \<open>removeQuestion idxStr ch =
     (if length (Questions ch) = 0 then Inl NoQuestions
      else
        (case Atoi (TrimSpace idxStr) of
           None \<Rightarrow> Inl InvalidSelection
         | Some idx \<Rightarrow>
             if idx < 1 \<or> idx > int (length (Questions ch)) then Inl InvalidSelection
             else
               (let idx = nat (idx - 1);
                    qs = take idx (Questions ch) @ drop (idx + 1) (Questions ch)
                in Inr (ch\<lparr>Questions := renumberQuestions qs\<rparr>))))\<close>

section \<open>Regular expressions as the decoder uses them\<close>

text \<open>
  The patterns of the decoder are sequences of literals, repetitions of a single
  character class, alternatives of literals, capture groups that neither nest nor repeat,
  and the anchors. Go's \<^verbatim>\<open>regexp\<close> returns the leftmost match, and among the matches
  at that position the one a backtracking search finds first: a greedy repetition tries
  the longest run first, a lazy one the shortest.

  Go matches code points, the model bytes. In every pattern a repetition is followed by
  an ASCII literal or the end, which cannot start inside a multi-byte code point, so both
  find the same matches.
\<close>

datatype charClass =
    Digit
  | Space
  | AnyButNewline
  | NoneOf string

fun inClass :: \<open>charClass \<Rightarrow> char \<Rightarrow> bool\<close> where
  \<open>inClass Digit c = isDigit c\<close>
| \<open>inClass Space c = (c \<in> set [CHR 0x09, CHR 0x0A, CHR 0x0C, CHR 0x0D, CHR 0x20])\<close>
| \<open>inClass AnyButNewline c = (c \<noteq> CHR 0x0A)\<close>
| \<open>inClass (NoneOf cs) c = (c \<notin> set cs)\<close>

datatype rx =
    Lit string
  | OneOf \<open>string list\<close>
  | Star charClass
  | Plus charClass
  | PlusLazy charClass
  | Open nat
  | Close nat
  | Bol
  | Eol

text \<open>The first of the candidates that succeeds.\<close>

fun tryEach :: \<open>('a \<Rightarrow> 'b option) \<Rightarrow> 'a list \<Rightarrow> 'b option\<close> where
  \<open>tryEach f [] = None\<close>
| \<open>tryEach f (k # ks) = (case f k of Some r \<Rightarrow> Some r | None \<Rightarrow> tryEach f ks)\<close>

text \<open>
  A group that has been closed: its number, where it starts and where it ends.
  \<open>matchHere\<close> matches the pattern at the head of \<open>s\<close>, which is the text from the
  position \<open>pos\<close> on, and returns where the match ends and the groups.
\<close>

type_synonym groups = \<open>(nat \<times> nat \<times> nat) list\<close>

fun matchHere ::
  \<open>rx list \<Rightarrow> string \<Rightarrow> nat \<Rightarrow> (nat \<times> nat) list \<Rightarrow> groups \<Rightarrow> (nat \<times> groups) option\<close> where
  \<open>matchHere [] s pos opened gs = Some (pos, gs)\<close>
| \<open>matchHere (Lit l # r) s pos opened gs =
     (if prefix l s then matchHere r (drop (length l) s) (pos + length l) opened gs
      else None)\<close>
| \<open>matchHere (OneOf ls # r) s pos opened gs =
     tryEach
       (\<lambda>l. if prefix l s then matchHere r (drop (length l) s) (pos + length l) opened gs
            else None)
       ls\<close>
| \<open>matchHere (Star cl # r) s pos opened gs =
     tryEach (\<lambda>k. matchHere r (drop k s) (pos + k) opened gs)
       (rev [0..<Suc (length (takeWhile (inClass cl) s))])\<close>
| \<open>matchHere (Plus cl # r) s pos opened gs =
     tryEach (\<lambda>k. matchHere r (drop k s) (pos + k) opened gs)
       (rev [1..<Suc (length (takeWhile (inClass cl) s))])\<close>
| \<open>matchHere (PlusLazy cl # r) s pos opened gs =
     tryEach (\<lambda>k. matchHere r (drop k s) (pos + k) opened gs)
       [1..<Suc (length (takeWhile (inClass cl) s))]\<close>
| \<open>matchHere (Open g # r) s pos opened gs = matchHere r s pos ((g, pos) # opened) gs\<close>
| \<open>matchHere (Close g # r) s pos opened gs =
     (case map_of opened g of
        None \<Rightarrow> None
      | Some start \<Rightarrow> matchHere r s pos opened ((g, start, pos) # gs))\<close>
| \<open>matchHere (Bol # r) s pos opened gs =
     (if pos = 0 then matchHere r s pos opened gs else None)\<close>
| \<open>matchHere (Eol # r) s pos opened gs =
     (if s = [] then matchHere r s pos opened gs else None)\<close>

text \<open>
  A match: where it begins, where it ends, its groups. \<open>searchFrom\<close> finds the leftmost
  match in \<open>s\<close>, the text from the position \<open>pos\<close> on.
\<close>

type_synonym rxMatch = \<open>nat \<times> nat \<times> groups\<close>

fun searchFrom :: \<open>rx list \<Rightarrow> string \<Rightarrow> nat \<Rightarrow> rxMatch option\<close> where
  \<open>searchFrom re [] pos =
     (case matchHere re [] pos [] [] of
        None \<Rightarrow> None
      | Some (e, gs) \<Rightarrow> Some (pos, e, gs))\<close>
| \<open>searchFrom re (c # s) pos =
     (case matchHere re (c # s) pos [] [] of
        None \<Rightarrow> searchFrom re s (Suc pos)
      | Some (e, gs) \<Rightarrow> Some (pos, e, gs))\<close>

text \<open>
  All matches, left to right, none overlapping another: \<open>skip\<close> counts the characters
  still covered by the last match. (No pattern of the decoder matches the empty text, so
  Go's rules for empty matches never apply.)
\<close>

fun findAllFrom :: \<open>rx list \<Rightarrow> string \<Rightarrow> nat \<Rightarrow> nat \<Rightarrow> rxMatch list\<close> where
  \<open>findAllFrom re [] pos skip =
     (if 0 < skip then []
      else
        (case matchHere re [] pos [] [] of
           None \<Rightarrow> []
         | Some (e, gs) \<Rightarrow> [(pos, e, gs)]))\<close>
| \<open>findAllFrom re (c # s) pos skip =
     (if 0 < skip then findAllFrom re s (Suc pos) (skip - 1)
      else
        (case matchHere re (c # s) pos [] [] of
           None \<Rightarrow> findAllFrom re s (Suc pos) 0
         | Some (e, gs) \<Rightarrow> (pos, e, gs) # findAllFrom re s (Suc pos) (e - pos - 1)))\<close>

definition slice :: \<open>string \<Rightarrow> nat \<Rightarrow> nat \<Rightarrow> string\<close> where
  \<open>slice s a b = take (b - a) (drop a s)\<close>

text \<open>The text of a group of a match, empty when the group did not take part.\<close>

definition groupText :: \<open>string \<Rightarrow> groups \<Rightarrow> nat \<Rightarrow> string\<close> where
  \<open>groupText s gs g = (case map_of gs g of None \<Rightarrow> [] | Some (a, b) \<Rightarrow> slice s a b)\<close>

text \<open>\<^verbatim>\<open>FindStringSubmatch\<close>, \<^verbatim>\<open>MatchString\<close>, \<^verbatim>\<open>FindAllStringSubmatchIndex\<close>.\<close>

definition FindStringSubmatch :: \<open>rx list \<Rightarrow> string \<Rightarrow> rxMatch option\<close> where
  \<open>FindStringSubmatch re s = searchFrom re s 0\<close>

definition MatchString :: \<open>rx list \<Rightarrow> string \<Rightarrow> bool\<close> where
  \<open>MatchString re s = (searchFrom re s 0 \<noteq> None)\<close>

definition FindAll :: \<open>rx list \<Rightarrow> string \<Rightarrow> rxMatch list\<close> where
  \<open>FindAll re s = findAllFrom re s 0 0\<close>

text \<open>The first group of the leftmost match, if there is a match.\<close>

definition firstGroup :: \<open>rx list \<Rightarrow> string \<Rightarrow> string option\<close> where
  \<open>firstGroup re s =
     (case FindStringSubmatch re s of
        None \<Rightarrow> None
      | Some (b, e, gs) \<Rightarrow> Some (groupText s gs 1))\<close>

section \<open>Decoder (parser.go)\<close>

text \<open>\<^verbatim>\<open>_(\d+)\.html$\<close>\<close>

definition extractChapterNumber :: \<open>string \<Rightarrow> string\<close> where
  \<open>extractChapterNumber filename =
     (case firstGroup [Lit ''_'', Open 1, Plus Digit, Close 1, Lit ''.html'', Eol] filename of
        Some m1 \<Rightarrow> m1
      | None \<Rightarrow> [])\<close>

definition extractBetweenTags :: \<open>string \<Rightarrow> string \<Rightarrow> string \<Rightarrow> string\<close> where
  \<open>extractBetweenTags content openTag closeTag =
     (case Index content openTag of
        None \<Rightarrow> []
      | Some start \<Rightarrow>
          (let start = start + length openTag
           in case Index (drop start content) closeTag of
                None \<Rightarrow> []
              | Some end \<Rightarrow> TrimSpace (slice content start (start + end))))\<close>

text \<open>\<^verbatim>\<open>strings.TrimPrefix\<close>\<close>

definition TrimPrefix :: \<open>string \<Rightarrow> string \<Rightarrow> string\<close> where
  \<open>TrimPrefix s p = (if prefix p s then drop (length p) s else s)\<close>

definition findConditionalParent :: \<open>string \<Rightarrow> string\<close> where
  \<open>findConditionalParent qID =
     (let numStr = TrimPrefix qID ''q''
      in case Atoi numStr of
           None \<Rightarrow> []
         | Some num \<Rightarrow> if num \<le> 1 then [] else ''q'' @ itoa (num - 1))\<close>

text \<open>
  The option patterns, for the input kind \<open>kind\<close> (\<^verbatim>\<open>radio\<close> or \<^verbatim>\<open>checkbox\<close>):
  \<^verbatim>\<open><input type="KIND"[^>]*name="QID"[^>]*value="([^"]*)"[^>]*>\s*<label[^>]*>([^<]+)</label>\<close>.
  The id spliced into the pattern is \<^verbatim>\<open>q\<close> and digits, so it stands for itself.
\<close>

definition optionRe :: \<open>string \<Rightarrow> string \<Rightarrow> rx list\<close> where
  \<open>optionRe kind qID =
     [Lit (''<input type="'' @ kind @ ''"''), Star (NoneOf ''>''),
      Lit (''name="'' @ qID @ ''"''), Star (NoneOf ''>''),
      Lit ''value="'', Open 1, Star (NoneOf ''"''), Close 1, Lit ''"'', Star (NoneOf ''>''),
      Lit ''>'', Star Space, Lit ''<label'', Star (NoneOf ''>''), Lit ''>'',
      Open 2, Plus (NoneOf ''<''), Close 2, Lit ''</label>'']\<close>

definition extractRadioOptions :: \<open>string \<Rightarrow> string \<Rightarrow> Option list\<close> where
  \<open>extractRadioOptions section qID =
     map (\<lambda>(b, e, gs). \<lparr>Value = groupText section gs 1, Option.Label = groupText section gs 2\<rparr>)
       (FindAll (optionRe ''radio'' qID) section)\<close>

definition decodeHTMLEntities :: \<open>string \<Rightarrow> string\<close> where
  \<open>decodeHTMLEntities s =
     (let s = ReplaceAll s ''&quot;'' ''"'';
          s = ReplaceAll s ''&amp;'' ''&'';
          s = ReplaceAll s ''&lt;'' ''<'';
          s = ReplaceAll s ''&gt;'' ''>''
      in s)\<close>

definition extractCheckboxOptions :: \<open>string \<Rightarrow> string \<Rightarrow> Option list\<close> where
  \<open>extractCheckboxOptions section qID =
     map (\<lambda>(b, e, gs).
            \<lparr>Value = decodeHTMLEntities (groupText section gs 1),
             Option.Label = groupText section gs 2\<rparr>)
       (FindAll (optionRe ''checkbox'' qID) section)\<close>

text \<open>\<^verbatim>\<open><div class="question-title">(Q\d+:[^<]+)</div>\<close> and \<^verbatim>\<open>^Q(\d+):\<close>\<close>

definition questionTitleRe :: \<open>rx list\<close> where
  \<open>questionTitleRe =
     [Lit ''<div class="question-title">'', Open 1, Lit ''Q'', Plus Digit, Lit '':'',
      Plus (NoneOf ''<''), Close 1, Lit ''</div>'']\<close>

definition qIDRe :: \<open>rx list\<close> where
  \<open>qIDRe = [Bol, Lit ''Q'', Open 1, Plus Digit, Close 1, Lit '':'']\<close>

text \<open>
  The body of the loop of \<^verbatim>\<open>extractQuestions\<close> for one match: \<open>sectionEnd\<close> is where the
  next match begins, or the length of the page. \<open>None\<close> is the \<^verbatim>\<open>continue\<close>.
\<close>

definition extractQuestion :: \<open>string \<Rightarrow> rxMatch \<Rightarrow> nat \<Rightarrow> Question option\<close> where
  \<open>extractQuestion content m sectionEnd =
     (case m of (m0, m1, gs) \<Rightarrow>
        (let title = groupText content gs 1
         in case firstGroup qIDRe title of
              None \<Rightarrow> None
            | Some qNum \<Rightarrow>
                (let qID = ''q'' @ qNum;
                     section = slice content m0 sectionEnd;
                     conditionalOn =
                       (if MatchString
                             [Lit (''<div class="question-section conditional-section hidden" id="'' @
                                   qID @ ''-section">'')] content
                        then findConditionalParent qID else []);
                     q = \<lparr>ID = qID, Question.Title = title, Type = [], Options = [],
                          Required = True, ConditionalOn = conditionalOn\<rparr>;
                     q = (if Contains section ''type="checkbox"''
                          then q\<lparr>Type := Checkbox, Options := extractCheckboxOptions section qID\<rparr>
                          else if Contains section ''type="radio"''
                          then q\<lparr>Type := Radio, Options := extractRadioOptions section qID\<rparr>
                          else q);
                     q = (if \<not> Contains section ''required'' then q\<lparr>Required := False\<rparr> else q)
                 in Some q)))\<close>

fun extractQuestionsLoop :: \<open>string \<Rightarrow> rxMatch list \<Rightarrow> Question list\<close> where
  \<open>extractQuestionsLoop content [] = []\<close>
| \<open>extractQuestionsLoop content (m # ms) =
     (let sectionEnd = (case ms of [] \<Rightarrow> length content | (n0, n1, ngs) # rest \<Rightarrow> n0)
      in case extractQuestion content m sectionEnd of
           None \<Rightarrow> extractQuestionsLoop content ms
         | Some q \<Rightarrow> q # extractQuestionsLoop content ms)\<close>

definition extractQuestions :: \<open>string \<Rightarrow> Question list\<close> where
  \<open>extractQuestions content = extractQuestionsLoop content (FindAll questionTitleRe content)\<close>

text \<open>
  \<^verbatim>\<open>id="ID-section"[^>]*class="[^"]*hidden[^"]*"\<close> and
  \<^verbatim>\<open>class="[^"]*hidden[^"]*"[^>]*id="ID-section"\<close>. \<^verbatim>\<open>detectConditionals\<close> writes into the
  slice it is given; the model returns the questions.
\<close>

definition hiddenRe :: \<open>string \<Rightarrow> rx list\<close> where
  \<open>hiddenRe sectionID =
     [Lit (''id="'' @ sectionID @ ''"''), Star (NoneOf ''>''), Lit ''class="'',
      Star (NoneOf ''"''), Lit ''hidden'', Star (NoneOf ''"''), Lit ''"'']\<close>

definition classFirstRe :: \<open>string \<Rightarrow> rx list\<close> where
  \<open>classFirstRe sectionID =
     [Lit ''class="'', Star (NoneOf ''"''), Lit ''hidden'', Star (NoneOf ''"''), Lit ''"'',
      Star (NoneOf ''>''), Lit (''id="'' @ sectionID @ ''"'')]\<close>

definition detectConditionals :: \<open>string \<Rightarrow> Question list \<Rightarrow> Question list\<close> where
  \<open>detectConditionals content questions =
     map (\<lambda>q.
            (let sectionID = ID q @ ''-section''
             in if MatchString (hiddenRe sectionID) content
                   \<or> MatchString (classFirstRe sectionID) content
                then q\<lparr>ConditionalOn := findConditionalParent (ID q)\<rparr>
                else q))
       questions\<close>

definition extractConversation :: \<open>string \<Rightarrow> Language \<Rightarrow> ConversationSection\<close> where
  \<open>extractConversation content lang =
     (let defaults = LanguageDefaults lang;
          conv = Conversation defaults;
          conv =
            (case firstGroup
                    [Lit ''<div class="question-title">'', Open 1,
                     OneOf [''Conversen'', ''Discuss'', ''Hablen'', ''Talk''], Star (NoneOf ''<''),
                     Close 1, Lit ''</div>''] content of
               Some m1 \<Rightarrow> conv\<lparr>ConversationSection.Title := m1\<rparr>
             | None \<Rightarrow> conv);
          conv =
            (case firstGroup
                    [Lit ''<label for="conversation"'', Star (NoneOf ''>''), Lit ''>'', Open 1,
                     Plus (NoneOf ''<''), Close 1, Lit ''</label>''] content of
               Some m1 \<Rightarrow> conv\<lparr>ConversationSection.Label := m1\<rparr>
             | None \<Rightarrow> conv);
          conv =
            (case firstGroup
                    [Lit ''<textarea'', Star (NoneOf ''>''), Lit ''id="conversation"'',
                     Star (NoneOf ''>''), Lit ''placeholder="'', Open 1, Plus (NoneOf ''"''),
                     Close 1, Lit ''"''] content of
               Some m1 \<Rightarrow> conv\<lparr>Placeholder := m1\<rparr>
             | None \<Rightarrow> conv)
      in conv)\<close>

text \<open>
  \<^verbatim>\<open>filepath.Base\<close>: the last element of the path, after the trailing slashes are
  dropped; \<^verbatim>\<open>.\<close> for the empty path and \<^verbatim>\<open>/\<close> for a path of slashes only.
\<close>

definition Base :: \<open>string \<Rightarrow> string\<close> where
  \<open>Base path =
     (if path = [] then ''.''
      else
        (let p = rev (dropWhile (\<lambda>c. c = CHR ''/'') (rev path))
         in if p = [] then ''/''
            else rev (takeWhile (\<lambda>c. c \<noteq> CHR ''/'') (rev p))))\<close>

datatype parseError =
    ReadError
  | InvalidChapterNumber string

text \<open>
  \<^verbatim>\<open>parseChapterFile\<close> reads the file first: \<open>data\<close> is what \<^verbatim>\<open>os.ReadFile\<close> returned,
  \<open>None\<close> for an error.
\<close>

definition parseChapterFile :: \<open>string \<Rightarrow> string option \<Rightarrow> Language \<Rightarrow> parseError + Chapter\<close> where
  \<open>parseChapterFile filePath data lang =
     (case data of
        None \<Rightarrow> Inl ReadError
      | Some content \<Rightarrow>
          (let ch = LanguageDefaults lang;
               ch = ch\<lparr>Language := lang\<rparr>;
               base = Base filePath;
               numStr = extractChapterNumber base
           in case Atoi numStr of
                None \<Rightarrow> Inl (InvalidChapterNumber base)
              | Some num \<Rightarrow>
                  (let ch = ch\<lparr>Number := num\<rparr>;
                       ch = ch\<lparr>Chapter.Title := extractBetweenTags content ''<title>'' ''</title>''\<rparr>;
                       ch = ch\<lparr>Heading := extractBetweenTags content ''<h1>'' ''</h1>''\<rparr>;
                       ch = ch\<lparr>HasCustomCSS := Contains content ''.checkbox-group''\<rparr>;
                       ch = ch\<lparr>HasCustomJS :=
                              Contains content ''conditional'' \<or>
                              Contains content (''classList.remove('' @ [CHR 0x27] @ ''hidden'' @
                                                [CHR 0x27] @ '')'')\<rparr>;
                       ch = (case firstGroup
                                    [Lit ''window.chapterName'', Star Space, Lit ''='', Star Space,
                                     Lit ''"'', Open 1, Plus (NoneOf ''"''), Close 1, Lit ''"'']
                                    content of
                               Some m1 \<Rightarrow> ch\<lparr>ChapterName := m1\<rparr>
                             | None \<Rightarrow> ch\<lparr>ChapterName := ChapterLabel lang @ '' '' @ itoa num\<rparr>);
                       ch = ch\<lparr>Questions := extractQuestions content\<rparr>;
                       ch = ch\<lparr>Questions := detectConditionals content (Questions ch)\<rparr>;
                       ch = ch\<lparr>Conversation := extractConversation content lang\<rparr>;
                       ch = (case firstGroup
                                    [Lit ''<label for="email">'', Open 1, Plus (NoneOf ''<''), Close 1,
                                     Lit ''</label>''] content of
                               Some m1 \<Rightarrow> ch\<lparr>EmailLabel := m1\<rparr>
                             | None \<Rightarrow> ch);
                       ch = (case firstGroup
                                    [Lit ''type="email"'', Star (NoneOf ''>''), Lit ''placeholder="'',
                                     Open 1, Plus (NoneOf ''"''), Close 1, Lit ''"''] content of
                               Some m1 \<Rightarrow> ch\<lparr>EmailPlaceH := m1\<rparr>
                             | None \<Rightarrow> ch);
                       ch = (case firstGroup
                                    [Lit ''class="submit-btn"'', Star (NoneOf ''>''), Lit ''>'', Open 1,
                                     Plus (NoneOf ''<''), Close 1, Lit ''</button>''] content of
                               Some m1 \<Rightarrow> ch\<lparr>SubmitText := m1\<rparr>
                             | None \<Rightarrow> ch);
                       ch = (case firstGroup
                                    [Lit ''class="reset-btn"'', Star (NoneOf ''>''), Lit ''>'', Open 1,
                                     Plus (NoneOf ''<''), Close 1, Lit ''</button>''] content of
                               Some m1 \<Rightarrow> ch\<lparr>ResetText := m1\<rparr>
                             | None \<Rightarrow> ch);
                       ch = (case firstGroup
                                    [Lit ''class="success-message"'', Star (NoneOf ''>''), Lit ''>'',
                                     Star Space, Open 1, PlusLazy AnyButNewline, Close 1, Star Space,
                                     Lit ''</div>''] content of
                               Some m1 \<Rightarrow> ch\<lparr>SuccessMsg := TrimSpace m1\<rparr>
                             | None \<Rightarrow> ch);
                       ch = (case firstGroup
                                    [Lit ''class="summary-title">'', Open 1, Plus (NoneOf ''<''),
                                     Close 1, Lit ''</h2>''] content of
                               Some m1 \<Rightarrow> ch\<lparr>SummaryTitle := m1\<rparr>
                             | None \<Rightarrow> ch)
                   in Inr ch)))\<close>

text \<open>
  \<^verbatim>\<open>parseChaptersByLanguage\<close> over the files the glob found, each with what reading it
  returned. A file that fails is reported on the error stream and skipped: the model
  returns the reports (the path and the error) next to the chapters.
\<close>

fun parseChaptersByLanguage ::
  \<open>(string \<times> string option) list \<Rightarrow> Language \<Rightarrow> (string \<times> parseError) list \<times> Chapter list\<close> where
  \<open>parseChaptersByLanguage [] lang = ([], [])\<close>
| \<open>parseChaptersByLanguage ((f, data) # files) lang =
     (case parseChapterFile f data lang of
        Inl err \<Rightarrow>
          (case parseChaptersByLanguage files lang of (ws, chs) \<Rightarrow> ((f, err) # ws, chs))
      | Inr ch \<Rightarrow>
          (case parseChaptersByLanguage files lang of (ws, chs) \<Rightarrow> (ws, ch # chs)))\<close>





text \<open>
  The tests by which the decoder takes the question with the id \<open>qID\<close> for a conditional
  one: the one of \<^verbatim>\<open>extractQuestions\<close> and the two of \<^verbatim>\<open>detectConditionals\<close>.
\<close>

definition markedConditional :: \<open>string \<Rightarrow> string \<Rightarrow> bool\<close> where
  \<open>markedConditional content qID =
     (MatchString
        [Lit (''<div class="question-section conditional-section hidden" id="'' @
              qID @ ''-section">'')] content \<or>
      MatchString (hiddenRe (qID @ ''-section'')) content \<or>
      MatchString (classFirstRe (qID @ ''-section'')) content)\<close>

section \<open>What the metadata object is to hold\<close>

text \<open>
  The entries of \<^verbatim>\<open>window.surveyQuestions\<close> as a list: one per question, in order, keyed
  by the question's id and holding its title, and one for the conversation prompt when
  the chapter has one. \<open>joinWith\<close> writes a list with a separator between neighbours.
\<close>

definition jsEscape :: \<open>string \<Rightarrow> string\<close> where
  \<open>jsEscape s = concat (map (\<lambda>c. if c = CHR 0x22 then [CHR 0x5C, CHR 0x22] else [c]) s)\<close>

text \<open>
  How a reader of the script finds the end of a double-quoted string literal, from the
  character after the opening quote: a backslash takes the character after it along, a
  double quote that no backslash took closes the literal, and a line break, or the end
  of the text, before that quote leaves the literal open. \<open>literalRest\<close> gives what
  follows the closing quote. The escape sequences are not looked into further.
\<close>

fun literalRest :: \<open>string \<Rightarrow> string option\<close> where
  \<open>literalRest [] = None\<close>
| \<open>literalRest [c] = (if c = CHR 0x22 then Some [] else None)\<close>
| \<open>literalRest (c # e # r) =
     (if c = CHR 0x22 then Some (e # r)
      else if c = CHR 0x5C then literalRest r
      else if c = CHR 0x0A \<or> c = CHR 0x0D then None
      else literalRest (e # r))\<close>

definition metadataEntries :: \<open>Chapter \<Rightarrow> string list\<close> where
  \<open>metadataEntries ch =
     map (\<lambda>q. ''\<newline>            '' @ ID q @ '': "'' @ jsEscape (Question.Title q) @ ''"'')
       (Questions ch) @
     (if ConversationSection.Label (Conversation ch) \<noteq> []
      then [''\<newline>            conversation: "'' @
              jsEscape (ConversationSection.Label (Conversation ch)) @ ''"'']
      else [])\<close>

fun joinWith :: \<open>string \<Rightarrow> string list \<Rightarrow> string\<close> where
  \<open>joinWith sep [] = []\<close>
| \<open>joinWith sep [x] = x\<close>
| \<open>joinWith sep (x # y # ys) = x @ sep @ joinWith sep (y # ys)\<close>

section \<open>Example chapters\<close>

text \<open>
  The chapter of the scenario: number 1, Spanish, a yes/no question and a follow-up
  question shown when the first is answered \<^verbatim>\<open>Si\<close>. Both questions are required, as
  every question the chapter manager creates is.
\<close>

definition scenarioQ1 :: Question where
  \<open>scenarioQ1 =
     \<lparr>ID = ''q1'', Question.Title = ''Q1: '' @ [CHR 0xC2, CHR 0xBF] @ ''Tiene hijos?'',
      Type = Radio,
      Options = [\<lparr>Value = ''Si'', Option.Label = ''Si''\<rparr>,
                 \<lparr>Value = ''No'', Option.Label = ''No''\<rparr>],
      Required = True, ConditionalOn = []\<rparr>\<close>

definition scenarioQ2 :: Question where
  \<open>scenarioQ2 =
     \<lparr>ID = ''q2'',
      Question.Title = ''Q2: '' @ [CHR 0xC2, CHR 0xBF] @ ''Cu'' @ [CHR 0xC3, CHR 0xA1] @ ''ntos?'',
      Type = Radio,
      Options = [\<lparr>Value = ''1'', Option.Label = ''1''\<rparr>,
                 \<lparr>Value = ''2'', Option.Label = ''2''\<rparr>,
                 \<lparr>Value = ''3+'', Option.Label = ''3+''\<rparr>],
      Required = True, ConditionalOn = ''q1''\<rparr>\<close>

definition scenarioChapter :: Chapter where
  \<open>scenarioChapter =
     (LanguageDefaults Spanish)\<lparr>
       Number := 1,
       Language := Spanish,
       Chapter.Title := ''Cap'' @ i_acute @ ''tulo 1 - Despu'' @ e_acute @ ''s de ver el video'',
       ChapterName := ''Cap'' @ i_acute @ ''tulo 1'',
       Questions := [scenarioQ1, scenarioQ2]\<rparr>\<close>

text \<open>A chapter whose success message holds markup.\<close>

definition markupMessageChapter :: Chapter where
  \<open>markupMessageChapter = (LanguageDefaults English)\<lparr>SuccessMsg := ''<b>Thanks & bye</b>''\<rparr>\<close>

text \<open>A chapter with both kinds of question and with text that needs escaping.\<close>

definition mixedOptNo :: Option where
  \<open>mixedOptNo = \<lparr>Value = ''No'', Option.Label = ''No''\<rparr>\<close>

definition mixedOptAB :: Option where
  \<open>mixedOptAB = \<lparr>Value = ''a&b'', Option.Label = ''a&b''\<rparr>\<close>

definition mixedQ1 :: Question where
  \<open>mixedQ1 =
     \<lparr>ID = ''q1'', Question.Title = ''Q1: Is 1 < 2?'', Type = Radio,
      Options = [\<lparr>Value = ''Yes'', Option.Label = ''Yes''\<rparr>, mixedOptNo],
      Required = True, ConditionalOn = []\<rparr>\<close>

definition mixedQ2 :: Question where
  \<open>mixedQ2 =
     \<lparr>ID = ''q2'', Question.Title = ''Q2: Pick <any>'', Type = Checkbox,
      Options = [mixedOptAB],
      Required = False, ConditionalOn = ''q1''\<rparr>\<close>

definition mixedChapter :: Chapter where
  \<open>mixedChapter =
     (LanguageDefaults English)\<lparr>
       Number := 2,
       Chapter.Title := ''Salt & pepper'',
       ChapterName := ''Chapter "2"'',
       Questions := [mixedQ1, mixedQ2],
       Conversation := (Conversation (LanguageDefaults English))\<lparr>
         ConversationSection.Label := ''Say "why"''\<rparr>\<rparr>\<close>

text \<open>
  A chapter with a chain of conditions: the second question hangs on the first, the third
  on the second.
\<close>

definition chainQ1 :: Question where
  \<open>chainQ1 =
     \<lparr>ID = ''q1'', Question.Title = ''Q1: Do you have children?'', Type = Radio,
      Options = [\<lparr>Value = ''Yes'', Option.Label = ''Yes''\<rparr>,
                 \<lparr>Value = ''No'', Option.Label = ''No''\<rparr>],
      Required = True, ConditionalOn = []\<rparr>\<close>

definition chainQ2 :: Question where
  \<open>chainQ2 =
     \<lparr>ID = ''q2'', Question.Title = ''Q2: More than two?'', Type = Radio,
      Options = [\<lparr>Value = ''Yes'', Option.Label = ''Yes''\<rparr>,
                 \<lparr>Value = ''No'', Option.Label = ''No''\<rparr>],
      Required = True, ConditionalOn = ''q1''\<rparr>\<close>

definition chainQ3 :: Question where
  \<open>chainQ3 =
     \<lparr>ID = ''q3'', Question.Title = ''Q3: Which ages?'', Type = Checkbox,
      Options = [\<lparr>Value = ''0-5'', Option.Label = ''0-5''\<rparr>,
                 \<lparr>Value = ''6-12'', Option.Label = ''6-12''\<rparr>],
      Required = True, ConditionalOn = ''q2''\<rparr>\<close>

definition chainChapter :: Chapter where
  \<open>chainChapter =
     (LanguageDefaults English)\<lparr>
       Number := 3,
       Chapter.Title := ''Chapter 3 - After watching the video'',
       ChapterName := ''Chapter 3'',
       Questions := [chainQ1, chainQ2, chainQ3]\<rparr>\<close>

text \<open>A page that holds nothing but one hidden question block.\<close>

definition hiddenBlockPage :: string where
  \<open>hiddenBlockPage =
     ''<div class="question-section conditional-section hidden" id="q2-section">'' @
     ''<div class="question-title">Q2: How many?</div></div>''\<close>


section \<open>Contiguous parts of a generated text\<close>

lemma sublist_skip: \<open>sublist x ys \<Longrightarrow> sublist x (p @ ys)\<close>
  by (metis sublist_append sublist_order.order_refl sublist_order.dual_order.trans
      sublist_append_leftI)

lemma sublist_piece: \<open>sublist x p \<Longrightarrow> sublist x (p @ r)\<close>
  by (metis sublist_append_rightI sublist_order.dual_order.trans)

lemma sublist_here1: \<open>sublist a (a @ r)\<close>
  by simp

lemma sublist_here2: \<open>sublist (a @ b) (a @ b @ r)\<close>
  by (metis append.assoc sublist_append_rightI)

lemma sublist_here3: \<open>sublist (a @ b @ c) (a @ b @ c @ r)\<close>
  by (metis append.assoc sublist_append_rightI)

lemma sublist_here4: \<open>sublist (a @ b @ c @ d) (a @ b @ c @ d @ r)\<close>
  by (metis append.assoc sublist_append_rightI)

lemma sublist_here5: \<open>sublist (a @ b @ c @ d @ e) (a @ b @ c @ d @ e @ r)\<close>
  by (metis append.assoc sublist_append_rightI)

lemma sublist_concat_map:
  \<open>x \<in> set xs \<Longrightarrow> sublist (f x) (concat (map f xs))\<close>
proof (induction xs)
  case Nil
  then show ?case by simp
next
  case (Cons y ys)
  show ?case
  proof (cases \<open>x = y\<close>)
    case True
    then show ?thesis by simp
  next
    case False
    with Cons have \<open>sublist (f x) (concat (map f ys))\<close> by simp
    then show ?thesis by (simp add: sublist_skip)
  qed
qed

lemma Contains_iff_sublist: \<open>Contains s sub \<longleftrightarrow> sublist sub s\<close>
  by (induction s) (auto simp: Contains_def sublist_Cons_right)

section \<open>The encoder's question blocks\<close>

lemma question_in_chapter:
  assumes \<open>q \<in> set (Questions ch)\<close>
  shows \<open>sublist (generateQuestionHTML q) (generateChapterHTML ch)\<close>
proof -
  let ?f = \<open>\<lambda>q. ''\<newline>'' @ generateQuestionHTML q\<close>
  have \<open>sublist (?f q) (concat (map ?f (Questions ch)))\<close>
    using assms by (rule sublist_concat_map)
  then have main: \<open>sublist (generateQuestionHTML q) (concat (map ?f (Questions ch)))\<close>
    by (metis sublist_append_leftI sublist_order.dual_order.trans)
  show ?thesis
    unfolding generateChapterHTML_def Let_def
    by (rule sublist_piece[OF main] | rule sublist_skip)+
qed

text \<open>
  C6. A question with a non-empty \<^verbatim>\<open>ConditionalOn\<close> is wrapped in a block that carries
  the classes \<^verbatim>\<open>conditional-section hidden\<close> and the id \<^verbatim>\<open><ID>-section\<close>; a question
  with an empty \<^verbatim>\<open>ConditionalOn\<close> is wrapped in the plain block
  \<^verbatim>\<open><div class="question-section">\<close>, with neither class and no id. The block of every
  question of a chapter is part of the chapter's page, and it opens right after the
  question's comment line and right before the question's title.
\<close>

theorem conditional_wrapper_marks:
  \<open>q \<in> set (Questions ch) \<Longrightarrow>
     sublist (generateQuestionHTML q) (generateChapterHTML ch) \<and>
     prefix
       (''\<newline>            <!-- '' @ ToUpper (ID q) @ '' -->'' @
        (if ConditionalOn q \<noteq> [] then
    ''\<newline>            <div class="question-section conditional-section hidden" id="'' @
    ID q @
    ''-section">''
         else
    ''\<newline>            <div class="question-section">'') @
        ''\<newline>                <div class="question-title">'')
       (generateQuestionHTML q)\<close>
proof
  assume \<open>q \<in> set (Questions ch)\<close>
  then show \<open>sublist (generateQuestionHTML q) (generateChapterHTML ch)\<close>
    by (rule question_in_chapter)
next
  show \<open>prefix
       (''\<newline>            <!-- '' @ ToUpper (ID q) @ '' -->'' @
        (if ConditionalOn q \<noteq> [] then
    ''\<newline>            <div class="question-section conditional-section hidden" id="'' @
    ID q @
    ''-section">''
         else
    ''\<newline>            <div class="question-section">'') @
        ''\<newline>                <div class="question-title">'')
       (generateQuestionHTML q)\<close>
    by (simp add: generateQuestionHTML_def)
qed

section \<open>Fields the encoder never reads\<close>

lemma conditionalPairJS_derived:
  \<open>conditionalPairJS (ch\<lparr>Number := n, HasCustomCSS := css, HasCustomJS := js\<rparr>) q =
     conditionalPairJS ch q\<close>
  by (simp add: conditionalPairJS_def)

lemma generateConditionalJS_derived:
  \<open>generateConditionalJS (ch\<lparr>Number := n, HasCustomCSS := css, HasCustomJS := js\<rparr>) =
     generateConditionalJS ch\<close>
  by (simp add: generateConditionalJS_def conditionalPairJS_derived cong: if_cong)

lemma surveyEntry_derived:
  \<open>surveyEntry (ch\<lparr>Number := n, HasCustomCSS := css, HasCustomJS := js\<rparr>) i q =
     surveyEntry ch i q\<close>
  by (simp add: surveyEntry_def)

lemma hasConditionalQuestions_derived:
  \<open>hasConditionalQuestions (ch\<lparr>Number := n, HasCustomCSS := css, HasCustomJS := js\<rparr>) =
     hasConditionalQuestions ch\<close>
  by (simp add: hasConditionalQuestions_def)

lemma hasCheckboxQuestions_derived:
  \<open>hasCheckboxQuestions (ch\<lparr>Number := n, HasCustomCSS := css, HasCustomJS := js\<rparr>) =
     hasCheckboxQuestions ch\<close>
  by (simp add: hasCheckboxQuestions_def)

lemma metadataScript_derived:
  \<open>metadataScript (ch\<lparr>Number := n, HasCustomCSS := css, HasCustomJS := js\<rparr>) =
     metadataScript ch\<close>
  by (simp add: metadataScript_def surveyEntry_derived hasConditionalQuestions_derived
      surveyConversationEntry_def)

lemma generateChapterHTML_derived:
  \<open>generateChapterHTML (ch\<lparr>Number := n, HasCustomCSS := css, HasCustomJS := js\<rparr>) =
     generateChapterHTML ch\<close>
  by (simp add: generateChapterHTML_def generateConditionalJS_derived metadataScript_derived
      hasConditionalQuestions_derived hasCheckboxQuestions_derived)

text \<open>The two tests of the encoder, read off the questions: one looks at the kinds only,
  the other at the \<^verbatim>\<open>ConditionalOn\<close> fields only.\<close>

lemma hasCheckboxQuestions_kinds:
  \<open>hasCheckboxQuestions ch = (Checkbox \<in> set (map Type (Questions ch)))\<close>
  by (simp add: hasCheckboxQuestions_def list_ex_iff image_iff eq_commute [of Checkbox])

lemma hasConditionalQuestions_parents:
  \<open>hasConditionalQuestions ch = ([p \<leftarrow> map ConditionalOn (Questions ch). p \<noteq> []] \<noteq> [])\<close>
  by (auto simp: hasConditionalQuestions_def list_ex_iff filter_empty_conv)

lemma prefix_same: \<open>prefix ys zs \<Longrightarrow> prefix (xs @ ys) (xs @ zs)\<close>
  by simp

lemma prefix_end: \<open>prefix xs (xs @ ys)\<close>
  by simp

lemma suffix_end: \<open>suffix xs xs\<close>
  by simp

text \<open>Where the style block goes: the page begins with the head, and between the link to
  the style sheet and the end of the head stands the style block when some question is of
  the checkbox kind, and nothing otherwise.\<close>

lemma style_block_position:
  \<open>prefix
    (''<!DOCTYPE html>\<newline>'' @
    ''<html lang="'' @
    Language ch @
    ''">\<newline>'' @
    ''<head>\<newline>'' @
    ''    <meta charset="UTF-8">\<newline>'' @
    ''    <meta name="viewport" content="width=device-width, initial-scale=1.0">\<newline>'' @
    ''    <title>'' @
    EscapeString (Chapter.Title ch) @
    ''</title>\<newline>'' @
    ''    <link rel="stylesheet" href="survey.css">'' @
    (if Checkbox \<in> set (map Type (Questions ch)) then checkboxStyle else []) @
    ''\<newline></head>\<newline>'')
    (generateChapterHTML ch)\<close>
  unfolding generateChapterHTML_def Let_def hasCheckboxQuestions_kinds
  by (rule prefix_same | rule prefix_end)+

text \<open>Where the conditional script goes: the page ends with the end of the summary
  section, then the conditional script when some question has a \<^verbatim>\<open>ConditionalOn\<close>, and
  nothing otherwise, then the metadata script and the library includes.\<close>

lemma conditional_script_position:
  \<open>suffix
    (''            <div id="summaryContent"></div>\<newline>'' @
    ''        </div>\<newline>'' @
    ''    </div>'' @
    (if [p \<leftarrow> map ConditionalOn (Questions ch). p \<noteq> []] \<noteq> []
     then generateConditionalJS ch else []) @
    metadataScript ch @
    libraryIncludes)
    (generateChapterHTML ch)\<close>
  unfolding generateChapterHTML_def Let_def hasConditionalQuestions_parents
  by (rule suffix_end | rule suffix_appendI)+

lemma generateConditionalJS_depends:
  \<open>generateConditionalJS ch =
     generateConditionalJS (zeroChapter\<lparr>Language := Language ch, Questions := Questions ch\<rparr>)\<close>
  by (simp add: generateConditionalJS_def conditionalPairJS_def cong: if_cong)

text \<open>
  C10. Two chapters that differ only in \<^verbatim>\<open>Number\<close>, \<^verbatim>\<open>HasCustomCSS\<close> and
  \<^verbatim>\<open>HasCustomJS\<close> have the same page, byte for byte: whatever these three fields of a
  chapter are set to, the page is the one of the chapter itself. What decides the style
  block and the conditional script is the list of questions: the test for the style block
  is that \<^verbatim>\<open>Checkbox\<close> is among the kinds of the questions, the test for the conditional
  script is that a non-empty string is among their \<^verbatim>\<open>ConditionalOn\<close> fields, and the page
  is built with these two tests. The head of the page is the fixed head with the style
  block between the style-sheet link and \<^verbatim>\<open></head>\<close> exactly when the first test holds;
  the page ends with the end of the summary section, the conditional script exactly when
  the second test holds, the metadata script and the library includes. The text of the
  conditional script is made of the language and the questions of the chapter, and of
  no other field.
\<close>

theorem encoder_ignores_derived_fields:
  \<open>generateChapterHTML (ch\<lparr>Number := n, HasCustomCSS := css, HasCustomJS := js\<rparr>) =
     generateChapterHTML ch \<and>
   hasCheckboxQuestions ch = (Checkbox \<in> set (map Type (Questions ch))) \<and>
   hasConditionalQuestions ch =
     ([p \<leftarrow> map ConditionalOn (Questions ch). p \<noteq> []] \<noteq> []) \<and>
   prefix
    (''<!DOCTYPE html>\<newline>'' @
    ''<html lang="'' @
    Language ch @
    ''">\<newline>'' @
    ''<head>\<newline>'' @
    ''    <meta charset="UTF-8">\<newline>'' @
    ''    <meta name="viewport" content="width=device-width, initial-scale=1.0">\<newline>'' @
    ''    <title>'' @
    EscapeString (Chapter.Title ch) @
    ''</title>\<newline>'' @
    ''    <link rel="stylesheet" href="survey.css">'' @
    (if Checkbox \<in> set (map Type (Questions ch)) then checkboxStyle else []) @
    ''\<newline></head>\<newline>'')
    (generateChapterHTML ch) \<and>
   suffix
    (''            <div id="summaryContent"></div>\<newline>'' @
    ''        </div>\<newline>'' @
    ''    </div>'' @
    (if [p \<leftarrow> map ConditionalOn (Questions ch). p \<noteq> []] \<noteq> []
     then generateConditionalJS ch else []) @
    metadataScript ch @
    libraryIncludes)
    (generateChapterHTML ch) \<and>
   generateConditionalJS ch =
     generateConditionalJS (zeroChapter\<lparr>Language := Language ch, Questions := Questions ch\<rparr>)\<close>
  by (intro conjI)
    (rule generateChapterHTML_derived hasCheckboxQuestions_kinds hasConditionalQuestions_parents
      style_block_position conditional_script_position generateConditionalJS_depends)+

theorem conditional_wrapper_marks_witness:
  \<open>scenarioQ2 \<in> set (Questions scenarioChapter) \<and>
   sublist (generateQuestionHTML scenarioQ2) (generateChapterHTML scenarioChapter) \<and>
   prefix
     (''\<newline>            <!-- Q2 -->'' @
      ''\<newline>            <div class="question-section conditional-section hidden" id="q2-section">'' @
      ''\<newline>                <div class="question-title">'')
     (generateQuestionHTML scenarioQ2)\<close>
proof -
  have m: \<open>scenarioQ2 \<in> set (Questions scenarioChapter)\<close>
    by (simp add: scenarioChapter_def)
  have u: \<open>ToUpper ''q2'' = ''Q2''\<close>
    by (simp add: ToUpper_def upperChar_def)
  have c: \<open>ConditionalOn scenarioQ2 \<noteq> []\<close> \<open>ID scenarioQ2 = ''q2''\<close>
    by (simp_all add: scenarioQ2_def)
  show ?thesis
    using m conditional_wrapper_marks [OF m] by (simp add: u c)
qed

section \<open>The encoder on the scenario\<close>

lemmas eval_question =
  generateQuestionHTML_def radioOptionHTML_def checkboxOptionHTML_def ToUpper_def upperChar_def
  EscapeString_def escapeChar_def Radio_def Checkbox_def itoa_def natToDec.simps digitChar_def

text \<open>
  C3 on the follow-up question of the scenario, which is required and conditional: its
  block is hidden, and the first option carries \<^verbatim>\<open>required\<close> all the same.
\<close>

theorem hidden_question_keeps_required:
  \<open>generateQuestionHTML scenarioQ2 =
       ''\<newline>            <!-- Q2 -->\<newline>'' @
       ''            <div class="question-section conditional-section hidden" id="q2-section">\<newline>'' @
       ''                <div class="question-title">Q2: '' @
       [CHR 0xC2, CHR 0xBF] @
       ''Cu'' @
       [CHR 0xC3, CHR 0xA1] @
       ''ntos?</div>\<newline>'' @
       ''                <div class="options">\<newline>'' @
       ''                    <div class="option">\<newline>'' @
       ''                        <input type="radio" id="q2_1" name="q2" value="1" required>\<newline>'' @
       ''                        <label for="q2_1">1</label>\<newline>'' @
       ''                    </div>\<newline>'' @
       ''                    <div class="option">\<newline>'' @
       ''                        <input type="radio" id="q2_2" name="q2" value="2">\<newline>'' @
       ''                        <label for="q2_2">2</label>\<newline>'' @
       ''                    </div>\<newline>'' @
       ''                    <div class="option">\<newline>'' @
       ''                        <input type="radio" id="q2_3" name="q2" value="3+">\<newline>'' @
       ''                        <label for="q2_3">3+</label>\<newline>'' @
       ''                    </div>\<newline>'' @
       ''                </div>\<newline>'' @
       ''            </div>''\<close>
  by (simp add: scenarioQ2_def eval_question)

text \<open>
  C4 on the scenario: the follow-up question is a radio question, and the listener clears
  the checkbox inputs of its section.
\<close>

theorem radio_child_clears_checkboxes:
  \<open>generateConditionalJS scenarioChapter =
       ''\<newline>\<newline>'' @
       ''    <script>\<newline>'' @
       ''        // Handle conditional questions\<newline>'' @
       ''        document.addEventListener('DOMContentLoaded', function() {\<newline>'' @
       ''            const q1Radios = document.querySelectorAll('input[name="q1"]');\<newline>'' @
       ''            const q2Section = document.getElementById('q2-section');\<newline>'' @
       ''            const q2Inputs = document.querySelectorAll('#q2-section input[type="checkbox"]');\<newline>'' @
       ''\<newline>            // Q1 -> Q2 logic\<newline>'' @
       ''            q1Radios.forEach(radio => {\<newline>'' @
       ''                radio.addEventListener('change', function() {\<newline>'' @
       ''                    if (this.value === 'Si') {\<newline>'' @
       ''                        q2Section.classList.remove('hidden');\<newline>'' @
       ''                    } else {\<newline>'' @
       ''                        q2Section.classList.add('hidden');\<newline>'' @
       ''                        // Clear Q2 selections\<newline>'' @
       ''                        q2Inputs.forEach(input => {\<newline>'' @
       ''                            input.checked = false;\<newline>'' @
       ''                        });\<newline>'' @
       ''                    }\<newline>'' @
       ''                });\<newline>'' @
       ''            });\<newline>'' @
       ''        });\<newline>'' @
       ''    </script>''\<close>
  by (simp add: scenarioChapter_def scenarioQ1_def scenarioQ2_def generateConditionalJS_def
      conditionalPairJS_def ToUpper_def upperChar_def Spanish_def English_def Radio_def
      Checkbox_def)

section \<open>The metadata script\<close>

lemma ReplaceAll_quote: \<open>ReplaceAll s [CHR 0x22] [CHR 0x5C, CHR 0x22] = jsEscape s\<close>
  by (induction s) (auto simp: jsEscape_def)

lemma joinWith_Cons:
  \<open>joinWith sep (x # xs) = (if xs = [] then x else x @ sep @ joinWith sep xs)\<close>
  by (cases xs) simp_all

lemma surveyEntry_eq:
  \<open>surveyEntry ch i q =
     (''\<newline>            '' @ ID q @ '': "'' @ jsEscape (Question.Title q) @ ''"'') @
     (if Suc i < length (Questions ch) \<or> ConversationSection.Label (Conversation ch) \<noteq> []
      then '','' else [])\<close>
proof -
  have \<open>int i < int (length (Questions ch)) - 1 \<longleftrightarrow> Suc i < length (Questions ch)\<close>
    by linarith
  then show ?thesis
    by (simp add: surveyEntry_def ReplaceAll_quote)
qed

lemma survey_loop_join:
  assumes \<open>k + length rest = length (Questions ch)\<close>
  shows \<open>concat (map (\<lambda>(i, q). surveyEntry ch i q) (enumerate k rest)) @
           surveyConversationEntry ch =
         joinWith '',''
           (map (\<lambda>q. ''\<newline>            '' @ ID q @ '': "'' @
                       jsEscape (Question.Title q) @ ''"'') rest @
            (if ConversationSection.Label (Conversation ch) \<noteq> []
             then [''\<newline>            conversation: "'' @
                     jsEscape (ConversationSection.Label (Conversation ch)) @ ''"'']
             else []))\<close>
  using assms
proof (induction rest arbitrary: k)
  case Nil
  then show ?case
    by (simp add: surveyConversationEntry_def ReplaceAll_quote)
next
  case (Cons q rest)
  from Cons.prems have k: \<open>Suc k + length rest = length (Questions ch)\<close>
    by simp
  from Cons.prems have lt: \<open>Suc k < length (Questions ch) \<longleftrightarrow> rest \<noteq> []\<close>
    by (cases rest) auto
  show ?case
    using Cons.IH [OF k] lt
    by (simp add: joinWith_Cons surveyEntry_eq)
qed

lemma survey_entries_join:
  \<open>concat (map (\<lambda>(i, q). surveyEntry ch i q) (enumerate 0 (Questions ch))) @
     surveyConversationEntry ch =
   joinWith '','' (metadataEntries ch)\<close>
  using survey_loop_join [of 0 \<open>Questions ch\<close> ch]
  by (simp add: metadataEntries_def)

lemma metadataScript_eq:
  \<open>metadataScript ch =
     ''\<newline>\<newline>    <script>'' @
     (if \<not> hasConditionalQuestions ch then ''\<newline>'' else []) @
    ''\<newline>        // Define questions for this survey\<newline>'' @
    ''        window.surveyQuestions = {'' @
     joinWith '','' (metadataEntries ch) @
    ''\<newline>        };\<newline>'' @
    ''\<newline>        // Define the chapter name for this survey\<newline>'' @
    ''        window.chapterName = "'' @
     jsEscape (ChapterName ch) @
    ''";\<newline>'' @
    ''    </script>''\<close>
  unfolding metadataScript_def ReplaceAll_quote
  using survey_entries_join [of ch]
  by (metis (no_types, lifting) append.assoc)

lemma metadataScript_in_page: \<open>sublist (metadataScript ch) (generateChapterHTML ch)\<close>
  unfolding generateChapterHTML_def Let_def
  by (rule sublist_here1 | rule sublist_skip)+

lemma metadata_block_in_page:
  \<open>sublist
    (
    ''\<newline>        // Define questions for this survey\<newline>'' @
    ''        window.surveyQuestions = {'' @
     joinWith '','' (metadataEntries ch) @
    ''\<newline>        };\<newline>'' @
    ''\<newline>        // Define the chapter name for this survey\<newline>'' @
    ''        window.chapterName = "'' @
     jsEscape (ChapterName ch) @
    ''";\<newline>'' @
    ''    </script>'')
     (generateChapterHTML ch)\<close>
proof -
  have \<open>sublist
    (
    ''\<newline>        // Define questions for this survey\<newline>'' @
    ''        window.surveyQuestions = {'' @
     joinWith '','' (metadataEntries ch) @
    ''\<newline>        };\<newline>'' @
    ''\<newline>        // Define the chapter name for this survey\<newline>'' @
    ''        window.chapterName = "'' @
     jsEscape (ChapterName ch) @
    ''";\<newline>'' @
    ''    </script>'')
     (metadataScript ch)\<close>
    unfolding metadataScript_eq
    by (rule sublist_skip, rule sublist_skip, rule sublist_order.order_refl)
  then show ?thesis
    using metadataScript_in_page sublist_order.dual_order.trans by blast
qed

text \<open>
  C9, as the code has it. The script block holds the assignment of
  \<^verbatim>\<open>window.surveyQuestions\<close> to an object with one entry per question, in order, keyed by
  the question's id and holding its title, followed by an entry under the key
  \<^verbatim>\<open>conversation\<close> holding the conversation prompt only when that prompt is not empty,
  the entries separated by commas; then the assignment of the chapter's name to
  \<^verbatim>\<open>window.chapterName\<close>. Double quotes inside the texts are written \<^verbatim>\<open>\"\<close>.
\<close>

theorem metadata_script_entries:
  \<open>length (metadataEntries ch) =
     length (Questions ch) +
     (if ConversationSection.Label (Conversation ch) \<noteq> [] then 1 else 0) \<and>
   sublist
    (
    ''\<newline>        // Define questions for this survey\<newline>'' @
    ''        window.surveyQuestions = {'' @
     joinWith '','' (metadataEntries ch) @
    ''\<newline>        };\<newline>'' @
    ''\<newline>        // Define the chapter name for this survey\<newline>'' @
    ''        window.chapterName = "'' @
     jsEscape (ChapterName ch) @
    ''";\<newline>'' @
    ''    </script>'')
     (generateChapterHTML ch)\<close>
  using metadata_block_in_page [of ch] by (simp add: metadataEntries_def)

text \<open>
  The chapter of the scenario has no conversation prompt (the defaults of a language set
  none): its metadata object holds the two questions and nothing under \<^verbatim>\<open>conversation\<close>.
\<close>

theorem metadata_without_conversation_entry:
  \<open>metadataScript scenarioChapter =
     ''\<newline>\<newline>    <script>'' @
     ''\<newline>        // Define questions for this survey\<newline>'' @
     ''        window.surveyQuestions = {\<newline>'' @
     ''            q1: "Q1: '' @ [CHR 0xC2, CHR 0xBF] @ ''Tiene hijos?",\<newline>'' @
     ''            q2: "Q2: '' @ [CHR 0xC2, CHR 0xBF] @ ''Cu'' @ [CHR 0xC3, CHR 0xA1] @ ''ntos?"\<newline>'' @
     ''        };\<newline>'' @
     ''\<newline>        // Define the chapter name for this survey\<newline>'' @
     ''        window.chapterName = "Cap'' @ [CHR 0xC3, CHR 0xAD] @ ''tulo 1";\<newline>'' @
     ''    </script>'' \<and>
   \<not> Contains (metadataScript scenarioChapter) ''conversation''\<close>
proof -
  have e: \<open>metadataScript scenarioChapter =
     ''\<newline>\<newline>    <script>'' @
     ''\<newline>        // Define questions for this survey\<newline>'' @
     ''        window.surveyQuestions = {\<newline>'' @
     ''            q1: "Q1: '' @ [CHR 0xC2, CHR 0xBF] @ ''Tiene hijos?",\<newline>'' @
     ''            q2: "Q2: '' @ [CHR 0xC2, CHR 0xBF] @ ''Cu'' @ [CHR 0xC3, CHR 0xA1] @ ''ntos?"\<newline>'' @
     ''        };\<newline>'' @
     ''\<newline>        // Define the chapter name for this survey\<newline>'' @
     ''        window.chapterName = "Cap'' @ [CHR 0xC3, CHR 0xAD] @ ''tulo 1";\<newline>'' @
     ''    </script>''\<close>
    by (simp add: metadataScript_def scenarioChapter_def scenarioQ1_def scenarioQ2_def
        LanguageDefaults_def zeroChapter_def zeroConversation_def hasConditionalQuestions_def
        surveyEntry_def surveyConversationEntry_def i_acute_def)
  have \<open>\<not> Contains (metadataScript scenarioChapter) ''conversation''\<close>
    unfolding e by (simp add: Contains_def)
  with e show ?thesis by blast
qed

section \<open>Escaping\<close>

lemma EscapeString_no_markup:
  \<open>CHR ''<'' \<notin> set (EscapeString s) \<and> CHR ''>'' \<notin> set (EscapeString s) \<and>
   CHR 0x22 \<notin> set (EscapeString s) \<and> CHR 0x27 \<notin> set (EscapeString s)\<close>
  by (induction s) (auto simp: EscapeString_def escapeChar_def)

lemma jsEscape_quotes:
  \<open>jsEscape s = pre @ CHR 0x22 # post \<Longrightarrow> pre \<noteq> [] \<and> last pre = CHR 0x5C\<close>
proof (induction s arbitrary: pre)
  case Nil
  then show ?case by (simp add: jsEscape_def)
next
  case (Cons c s)
  have step: \<open>jsEscape (c # s) =
      (if c = CHR 0x22 then [CHR 0x5C, CHR 0x22] else [c]) @ jsEscape s\<close>
    by (simp add: jsEscape_def)
  show ?case
  proof (cases \<open>c = CHR 0x22\<close>)
    case True
    with step Cons.prems have eq: \<open>CHR 0x5C # CHR 0x22 # jsEscape s = pre @ CHR 0x22 # post\<close>
      by simp
    then obtain p1 where p1: \<open>pre = CHR 0x5C # p1\<close>
      by (cases pre) auto
    with eq have eq2: \<open>CHR 0x22 # jsEscape s = p1 @ CHR 0x22 # post\<close>
      by simp
    show ?thesis
    proof (cases p1)
      case Nil
      with p1 show ?thesis by simp
    next
      case (Cons d p2)
      with eq2 have \<open>jsEscape s = p2 @ CHR 0x22 # post\<close>
        by simp
      from Cons.IH [OF this] p1 Cons show ?thesis
        by simp
    qed
  next
    case False
    with step Cons.prems have eq: \<open>c # jsEscape s = pre @ CHR 0x22 # post\<close>
      by simp
    with False obtain p1 where p1: \<open>pre = c # p1\<close>
      by (cases pre) auto
    with eq have \<open>jsEscape s = p1 @ CHR 0x22 # post\<close>
      by simp
    from Cons.IH [OF this] p1 show ?thesis
      by simp
  qed
qed

lemma sublist_trans': \<open>sublist a b \<Longrightarrow> sublist b c \<Longrightarrow> sublist a c\<close>
  using sublist_order.dual_order.trans by blast

lemma in_enumerate: \<open>x \<in> set xs \<Longrightarrow> \<exists>i. (i, x) \<in> set (enumerate n xs)\<close>
  by (metis in_set_conv_nth length_enumerate nth_enumerate_eq nth_mem)

lemma question_title_escaped:
  \<open>sublist
    (
    ''\<newline>                <div class="question-title">'' @
    EscapeString (Question.Title q) @
    ''</div>'')
     (generateQuestionHTML q)\<close>
  unfolding generateQuestionHTML_def
  by (rule sublist_here3 | rule sublist_skip)+

lemma radio_option_in_question:
  assumes \<open>Type q = Radio\<close> \<open>opt \<in> set (Options q)\<close>
  shows \<open>\<exists>i. sublist (radioOptionHTML q i opt) (generateQuestionHTML q)\<close>
proof -
  from assms(2) obtain i where i: \<open>(i, opt) \<in> set (enumerate 0 (Options q))\<close>
    using in_enumerate by fastforce
  let ?f = \<open>\<lambda>(i, opt). radioOptionHTML q i opt\<close>
  have m: \<open>sublist (?f (i, opt)) (concat (map ?f (enumerate 0 (Options q))))\<close>
    using i by (rule sublist_concat_map)
  have \<open>sublist (radioOptionHTML q i opt) (generateQuestionHTML q)\<close>
    unfolding generateQuestionHTML_def
    using assms(1) m
    by (simp only: if_True prod.case append_assoc simp_thms)
      ((rule sublist_piece, assumption) | rule sublist_skip)+
  then show ?thesis ..
qed

lemma checkbox_option_in_question:
  assumes \<open>Type q = Checkbox\<close> \<open>opt \<in> set (Options q)\<close>
  shows \<open>\<exists>i. sublist (checkboxOptionHTML q i opt) (generateQuestionHTML q)\<close>
proof -
  from assms(2) obtain i where i: \<open>(i, opt) \<in> set (enumerate 0 (Options q))\<close>
    using in_enumerate by fastforce
  let ?f = \<open>\<lambda>(i, opt). checkboxOptionHTML q i opt\<close>
  have m: \<open>sublist (?f (i, opt)) (concat (map ?f (enumerate 0 (Options q))))\<close>
    using i by (rule sublist_concat_map)
  have ne: \<open>Checkbox \<noteq> Radio\<close>
    by (simp add: Checkbox_def Radio_def)
  have \<open>sublist (checkboxOptionHTML q i opt) (generateQuestionHTML q)\<close>
    unfolding generateQuestionHTML_def
    using assms(1) m ne
    by (simp only: if_True if_False prod.case append_assoc simp_thms)
      ((rule sublist_piece, assumption) | rule sublist_skip)+
  then show ?thesis ..
qed

lemma in_joinWith: \<open>x \<in> set xs \<Longrightarrow> sublist x (joinWith sep xs)\<close>
proof (induction xs)
  case Nil
  then show ?case by simp
next
  case (Cons y ys)
  show ?case
  proof (cases \<open>x = y\<close>)
    case True
    then show ?thesis by (simp add: joinWith_Cons)
  next
    case False
    with Cons have \<open>sublist x (joinWith sep ys)\<close> \<open>ys \<noteq> []\<close>
      by auto
    then show ?thesis
      by (simp add: joinWith_Cons sublist_skip)
  qed
qed

lemma metadata_entry_in_page:
  assumes \<open>e \<in> set (metadataEntries ch)\<close>
  shows \<open>sublist e (generateChapterHTML ch)\<close>
proof -
  have \<open>sublist e (joinWith '','' (metadataEntries ch))\<close>
    using assms by (rule in_joinWith)
  then have \<open>sublist e (metadataScript ch)\<close>
    unfolding metadataScript_eq
    by - ((rule sublist_piece, assumption) | rule sublist_skip)+
  then show ?thesis
    using metadataScript_in_page by (rule sublist_trans')
qed

lemma chapter_name_in_page:
  \<open>sublist (''        window.chapterName = "'' @ jsEscape (ChapterName ch) @ ''";\<newline>'')
     (generateChapterHTML ch)\<close>
proof -
  have \<open>sublist (''        window.chapterName = "'' @ jsEscape (ChapterName ch) @ ''";\<newline>'')
     (metadataScript ch)\<close>
    unfolding metadataScript_eq
    by (rule sublist_here3 | rule sublist_skip)+
  then show ?thesis
    using metadataScript_in_page by (rule sublist_trans')
qed

lemma radio_option_escaped:
  \<open>sublist (''" value="'' @ EscapeString (Value opt) @ ''"'') (radioOptionHTML q i opt) \<and>
   sublist (''">'' @ EscapeString (Option.Label opt) @ ''</label>\<newline>'')
     (radioOptionHTML q i opt)\<close>
  unfolding radioOptionHTML_def Let_def
  by (rule conjI) ((rule sublist_here3 | rule sublist_skip)+)+

lemma checkbox_option_escaped:
  \<open>sublist (''" value="'' @ EscapeString (Value opt) @ ''">\<newline>'')
     (checkboxOptionHTML q i opt) \<and>
   sublist (''">'' @ EscapeString (Option.Label opt) @ ''</label>\<newline>'')
     (checkboxOptionHTML q i opt)\<close>
  unfolding checkboxOptionHTML_def Let_def
  by (rule conjI) ((rule sublist_here3 | rule sublist_skip)+)+

lemma success_message_verbatim:
  \<open>sublist (''        <div class="success-message" id="successMessage">\<newline>'' @
            ''            '' @ SuccessMsg ch @ ''\<newline>        </div>'') (generateChapterHTML ch)\<close>
  unfolding generateChapterHTML_def Let_def
  by (rule sublist_here4 | rule sublist_skip)+

text \<open>In a text with no backslash and no line break, the literal that \<open>jsEscape\<close>
  makes of it is closed by the quote written after it.\<close>

lemma jsEscape_Cons:
  \<open>jsEscape (c # s) = (if c = CHR 0x22 then [CHR 0x5C, CHR 0x22] else [c]) @ jsEscape s\<close>
  by (simp add: jsEscape_def)

lemma literalRest_quote: \<open>literalRest (CHR 0x22 # rest) = Some rest\<close>
  by (cases rest) simp_all

lemma literalRest_plain:
  \<open>c \<noteq> CHR 0x22 \<Longrightarrow> c \<noteq> CHR 0x5C \<Longrightarrow> c \<noteq> CHR 0x0A \<Longrightarrow> c \<noteq> CHR 0x0D \<Longrightarrow> t \<noteq> [] \<Longrightarrow>
   literalRest (c # t) = literalRest t\<close>
  by (cases t) simp_all

lemma literalRest_jsEscape:
  \<open>CHR 0x5C \<notin> set s \<Longrightarrow> CHR 0x0A \<notin> set s \<Longrightarrow> CHR 0x0D \<notin> set s \<Longrightarrow>
   literalRest (jsEscape s @ CHR 0x22 # rest) = Some rest\<close>
proof (induction s)
  case Nil
  then show ?case by (simp add: jsEscape_def literalRest_quote)
next
  case (Cons c s)
  then have ih: \<open>literalRest (jsEscape s @ CHR 0x22 # rest) = Some rest\<close> by simp
  show ?case
  proof (cases \<open>c = CHR 0x22\<close>)
    case True
    then show ?thesis using ih by (simp add: jsEscape_Cons)
  next
    case False
    with Cons.prems have \<open>literalRest (c # (jsEscape s @ CHR 0x22 # rest)) =
        literalRest (jsEscape s @ CHR 0x22 # rest)\<close>
      by (intro literalRest_plain) auto
    with False ih show ?thesis by (simp add: jsEscape_Cons)
  qed
qed

text \<open>The hypothesis on the backslash is needed: a text that ends in a backslash takes
  the closing quote along, and the literal stays open.\<close>

lemma backslash_leaves_literal_open:
  \<open>literalRest (jsEscape [CHR ''a'', CHR 0x5C] @ CHR 0x22 # '';'') = None\<close>
  by (simp add: jsEscape_def)

text \<open>
  C7, as the code has it. Every free text of a chapter that goes into the markup, the
  success message apart, is written through \<^verbatim>\<open>html.EscapeString\<close>, whose result holds
  none of \<^verbatim>\<open>< > " '\<close> and has \<^verbatim>\<open>&amp;\<close> for every \<^verbatim>\<open>&\<close>: the title, the heading, the three
  conversation fields, the email label and placeholder, the two button texts, the summary
  title, and each question's title, option values and option labels. The success message
  is written as it is. In the metadata script the question titles, the conversation
  prompt and the chapter name are written between double quotes with each double quote
  of theirs escaped by a backslash; for a text with no backslash and no line break the
  string literal is then well-formed: it is closed by the quote written after the text,
  whatever follows.
\<close>

theorem interpolated_text_is_escaped:
  \<open>(let page = generateChapterHTML ch in
     sublist (''    <title>'' @ EscapeString (Chapter.Title ch) @ ''</title>\<newline>'') page \<and>
     sublist (''        <h1>'' @ EscapeString (Heading ch) @ ''</h1>\<newline>'') page \<and>
     sublist (''                <div class="question-title">'' @
              EscapeString (ConversationSection.Title (Conversation ch)) @
              ''</div>\<newline>'') page \<and>
     sublist (''                    <label for="conversation" style="color: #666; font-size: 14px;">'' @
              EscapeString (ConversationSection.Label (Conversation ch)) @
              ''</label>\<newline>'') page \<and>
     sublist (''                    <textarea id="conversation" name="conversation" placeholder="'' @
              EscapeString (Placeholder (Conversation ch)) @
              ''" required></textarea>\<newline>'') page \<and>
     sublist (''                <div class="question-title"><label for="email">'' @
              EscapeString (EmailLabel ch) @
              ''</label></div>\<newline>'') page \<and>
     sublist (''                    <input type="email" id="email" name="email" placeholder="'' @
              EscapeString (EmailPlaceH ch) @
              ''" required>\<newline>'') page \<and>
     sublist (''                <button type="submit" class="submit-btn" id="submitBtn">'' @
              EscapeString (SubmitText ch) @
              ''</button>\<newline>'') page \<and>
     sublist (''                <button type="reset" class="reset-btn" id="resetBtn">'' @
              EscapeString (ResetText ch) @
              ''</button>\<newline>'') page \<and>
     sublist (''            <h2 class="summary-title">'' @
              EscapeString (SummaryTitle ch) @
              ''</h2>\<newline>'') page \<and>
     sublist (''        <div class="success-message" id="successMessage">\<newline>'' @
              ''            '' @ SuccessMsg ch @ ''\<newline>        </div>'') page \<and>
     (q \<in> set (Questions ch) \<longrightarrow>
        sublist (''\<newline>                <div class="question-title">'' @
                 EscapeString (Question.Title q) @ ''</div>'') page \<and>
        sublist (''\<newline>            '' @ ID q @ '': "'' @
                 jsEscape (Question.Title q) @ ''"'') page) \<and>
     (q \<in> set (Questions ch) \<and> opt \<in> set (Options q) \<and> Type q = Radio \<longrightarrow>
        sublist (''" value="'' @ EscapeString (Value opt) @ ''"'') page \<and>
        sublist (''">'' @ EscapeString (Option.Label opt) @ ''</label>\<newline>'') page) \<and>
     (q' \<in> set (Questions ch) \<and> opt' \<in> set (Options q') \<and> Type q' = Checkbox \<longrightarrow>
        sublist (''" value="'' @ EscapeString (Value opt') @ ''">\<newline>'') page \<and>
        sublist (''">'' @ EscapeString (Option.Label opt') @ ''</label>\<newline>'') page) \<and>
     (ConversationSection.Label (Conversation ch) \<noteq> [] \<longrightarrow>
        sublist (''\<newline>            conversation: "'' @
                 jsEscape (ConversationSection.Label (Conversation ch)) @ ''"'') page) \<and>
     sublist (''        window.chapterName = "'' @ jsEscape (ChapterName ch) @ ''";\<newline>'')
       page) \<and>
   CHR ''<'' \<notin> set (EscapeString s) \<and> CHR ''>'' \<notin> set (EscapeString s) \<and>
   CHR 0x22 \<notin> set (EscapeString s) \<and> CHR 0x27 \<notin> set (EscapeString s) \<and>
   EscapeString (a @ CHR ''&'' # b) = EscapeString a @ ''&amp;'' @ EscapeString b \<and>
   (jsEscape s = pre @ CHR 0x22 # post \<longrightarrow> pre \<noteq> [] \<and> last pre = CHR 0x5C) \<and>
   (CHR 0x5C \<notin> set s \<and> CHR 0x0A \<notin> set s \<and> CHR 0x0D \<notin> set s \<longrightarrow>
      literalRest (jsEscape s @ CHR 0x22 # rest) = Some rest)\<close>
proof -
  let ?page = \<open>generateChapterHTML ch\<close>
  have chapter_fields:
    \<open>sublist (''    <title>'' @ EscapeString (Chapter.Title ch) @ ''</title>\<newline>'') ?page\<close>
    \<open>sublist (''        <h1>'' @ EscapeString (Heading ch) @ ''</h1>\<newline>'') ?page\<close>
    \<open>sublist (''                <div class="question-title">'' @
              EscapeString (ConversationSection.Title (Conversation ch)) @
              ''</div>\<newline>'') ?page\<close>
    \<open>sublist (''                    <label for="conversation" style="color: #666; font-size: 14px;">'' @
              EscapeString (ConversationSection.Label (Conversation ch)) @
              ''</label>\<newline>'') ?page\<close>
    \<open>sublist (''                    <textarea id="conversation" name="conversation" placeholder="'' @
              EscapeString (Placeholder (Conversation ch)) @
              ''" required></textarea>\<newline>'') ?page\<close>
    \<open>sublist (''                <div class="question-title"><label for="email">'' @
              EscapeString (EmailLabel ch) @
              ''</label></div>\<newline>'') ?page\<close>
    \<open>sublist (''                    <input type="email" id="email" name="email" placeholder="'' @
              EscapeString (EmailPlaceH ch) @
              ''" required>\<newline>'') ?page\<close>
    \<open>sublist (''                <button type="submit" class="submit-btn" id="submitBtn">'' @
              EscapeString (SubmitText ch) @
              ''</button>\<newline>'') ?page\<close>
    \<open>sublist (''                <button type="reset" class="reset-btn" id="resetBtn">'' @
              EscapeString (ResetText ch) @
              ''</button>\<newline>'') ?page\<close>
    \<open>sublist (''            <h2 class="summary-title">'' @
              EscapeString (SummaryTitle ch) @
              ''</h2>\<newline>'') ?page\<close>
    unfolding generateChapterHTML_def Let_def
    by ((rule sublist_here3 | rule sublist_skip)+)+
  note success = success_message_verbatim [of ch]
  have question_fields:
    \<open>sublist (''\<newline>                <div class="question-title">'' @
                 EscapeString (Question.Title q) @ ''</div>'') ?page \<and>
     sublist (''\<newline>            '' @ ID q @ '': "'' @
                 jsEscape (Question.Title q) @ ''"'') ?page\<close>
    if \<open>q \<in> set (Questions ch)\<close>
  proof
    show \<open>sublist (''\<newline>                <div class="question-title">'' @
                 EscapeString (Question.Title q) @ ''</div>'') ?page\<close>
      using question_title_escaped question_in_chapter [OF that] by (rule sublist_trans')
    have \<open>''\<newline>            '' @ ID q @ '': "'' @ jsEscape (Question.Title q) @ ''"''
        \<in> set (metadataEntries ch)\<close>
      using that by (auto simp: metadataEntries_def)
    then show \<open>sublist (''\<newline>            '' @ ID q @ '': "'' @
                 jsEscape (Question.Title q) @ ''"'') ?page\<close>
      by (rule metadata_entry_in_page)
  qed
  have radio_fields:
    \<open>sublist (''" value="'' @ EscapeString (Value opt) @ ''"'') ?page \<and>
     sublist (''">'' @ EscapeString (Option.Label opt) @ ''</label>\<newline>'') ?page\<close>
    if \<open>q \<in> set (Questions ch) \<and> opt \<in> set (Options q) \<and> Type q = Radio\<close>
  proof -
    from that obtain i where \<open>sublist (radioOptionHTML q i opt) (generateQuestionHTML q)\<close>
      using radio_option_in_question by blast
    with that have \<open>sublist (radioOptionHTML q i opt) ?page\<close>
      using question_in_chapter sublist_trans' by blast
    with radio_option_escaped [of opt q i] show ?thesis
      using sublist_trans' by blast
  qed
  have checkbox_fields:
    \<open>sublist (''" value="'' @ EscapeString (Value opt') @ ''">\<newline>'') ?page \<and>
     sublist (''">'' @ EscapeString (Option.Label opt') @ ''</label>\<newline>'') ?page\<close>
    if \<open>q' \<in> set (Questions ch) \<and> opt' \<in> set (Options q') \<and> Type q' = Checkbox\<close>
  proof -
    from that obtain i where \<open>sublist (checkboxOptionHTML q' i opt') (generateQuestionHTML q')\<close>
      using checkbox_option_in_question by blast
    with that have \<open>sublist (checkboxOptionHTML q' i opt') ?page\<close>
      using question_in_chapter sublist_trans' by blast
    with checkbox_option_escaped [of opt' q' i] show ?thesis
      using sublist_trans' by blast
  qed
  have conversation_entry:
    \<open>sublist (''\<newline>            conversation: "'' @
                 jsEscape (ConversationSection.Label (Conversation ch)) @ ''"'') ?page\<close>
    if \<open>ConversationSection.Label (Conversation ch) \<noteq> []\<close>
  proof -
    have \<open>''\<newline>            conversation: "'' @
            jsEscape (ConversationSection.Label (Conversation ch)) @ ''"''
        \<in> set (metadataEntries ch)\<close>
      using that by (simp add: metadataEntries_def)
    then show ?thesis
      by (rule metadata_entry_in_page)
  qed
  have amp: \<open>EscapeString (a @ CHR ''&'' # b) = EscapeString a @ ''&amp;'' @ EscapeString b\<close>
    by (simp add: EscapeString_def escapeChar_def)
  show ?thesis
    unfolding Let_def
    using chapter_fields success question_fields radio_fields checkbox_fields
      conversation_entry chapter_name_in_page [of ch] EscapeString_no_markup [of s] amp
      jsEscape_quotes [of s pre post] literalRest_jsEscape [of s rest]
    by blast
qed


theorem interpolated_text_is_escaped_witness:
  \<open>mixedQ1 \<in> set (Questions mixedChapter) \<and> mixedOptNo \<in> set (Options mixedQ1) \<and>
   Type mixedQ1 = Radio \<and>
   mixedQ2 \<in> set (Questions mixedChapter) \<and> mixedOptAB \<in> set (Options mixedQ2) \<and>
   Type mixedQ2 = Checkbox \<and>
   ConversationSection.Label (Conversation mixedChapter) \<noteq> [] \<and>
   jsEscape ''a"'' = [CHR ''a'', CHR 0x5C] @ CHR 0x22 # [] \<and>
   CHR 0x5C \<notin> set ''a"'' \<and> CHR 0x0A \<notin> set ''a"'' \<and> CHR 0x0D \<notin> set ''a"'' \<and>
   literalRest (jsEscape ''a"'' @ CHR 0x22 # '';'') = Some '';'' \<and>
   sublist ''    <title>Salt &amp; pepper</title>\<newline>'' (generateChapterHTML mixedChapter) \<and>
   sublist ''\<newline>                <div class="question-title">Q1: Is 1 &lt; 2?</div>''
     (generateChapterHTML mixedChapter) \<and>
   sublist ''" value="No"'' (generateChapterHTML mixedChapter) \<and>
   sublist ''" value="a&amp;b">\<newline>'' (generateChapterHTML mixedChapter) \<and>
   sublist (''\<newline>            conversation: "Say '' @ [CHR 0x5C] @ ''"why'' @ [CHR 0x5C] @ ''""'')
     (generateChapterHTML mixedChapter) \<and>
   last [CHR ''a'', CHR 0x5C] = CHR 0x5C\<close>
proof -
  have h: \<open>mixedQ1 \<in> set (Questions mixedChapter)\<close> \<open>mixedOptNo \<in> set (Options mixedQ1)\<close>
    \<open>Type mixedQ1 = Radio\<close>
    \<open>mixedQ2 \<in> set (Questions mixedChapter)\<close> \<open>mixedOptAB \<in> set (Options mixedQ2)\<close>
    \<open>Type mixedQ2 = Checkbox\<close>
    \<open>ConversationSection.Label (Conversation mixedChapter) \<noteq> []\<close>
    \<open>jsEscape ''a"'' = [CHR ''a'', CHR 0x5C] @ CHR 0x22 # []\<close>
    by (simp_all add: mixedChapter_def mixedQ1_def mixedQ2_def jsEscape_def)
  have v: \<open>Chapter.Title mixedChapter = ''Salt & pepper''\<close>
    \<open>Question.Title mixedQ1 = ''Q1: Is 1 < 2?''\<close>
    \<open>Value mixedOptNo = ''No''\<close> \<open>Value mixedOptAB = ''a&b''\<close>
    \<open>ConversationSection.Label (Conversation mixedChapter) = ''Say "why"''\<close>
    by (simp_all add: mixedChapter_def mixedQ1_def mixedOptNo_def mixedOptAB_def)
  show ?thesis
    using h interpolated_text_is_escaped
      [of mixedChapter mixedQ1 mixedOptNo mixedQ2 mixedOptAB \<open>''a"''\<close> \<open>[]\<close> \<open>[]\<close>
        \<open>[CHR ''a'', CHR 0x5C]\<close> \<open>[]\<close> \<open>'';''\<close>]
    by (simp add: Let_def v EscapeString_def escapeChar_def jsEscape_def)
qed

text \<open>The success message of a chapter goes into the page as it is, markup included.\<close>

theorem success_message_not_escaped:
  \<open>sublist
     (''        <div class="success-message" id="successMessage">\<newline>'' @
      ''            <b>Thanks & bye</b>\<newline>'' @
      ''        </div>'')
     (generateChapterHTML markupMessageChapter)\<close>
  using success_message_verbatim [of markupMessageChapter]
  by (simp add: markupMessageChapter_def)

section \<open>Decimal numbers\<close>

lemma digit_cases:
  \<open>d < 10 \<Longrightarrow> d = 0 \<or> d = 1 \<or> d = 2 \<or> d = 3 \<or> d = 4 \<or> d = 5 \<or> d = 6 \<or> d = 7 \<or> d = 8 \<or>
     d = (9::nat)\<close>
  by arith

lemma digitVal_digitChar: \<open>d < 10 \<Longrightarrow> digitVal (digitChar d) = d\<close>
  using digit_cases [of d] by (auto simp: digitVal_def digitChar_def)

lemma isDigit_digitChar: \<open>d < 10 \<Longrightarrow> isDigit (digitChar d)\<close>
  using digit_cases [of d] by (auto simp: isDigit_def digitChar_def)

lemma digitsVal_snoc: \<open>digitsVal (ds @ [c]) = 10 * digitsVal ds + digitVal c\<close>
  by (simp add: digitsVal_def)

lemma digitsVal_natToDec: \<open>digitsVal (natToDec n) = n\<close>
proof (induction n rule: natToDec.induct)
  case (1 n)
  show ?case
  proof (cases \<open>n < 10\<close>)
    case True
    then show ?thesis
      by (simp add: natToDec.simps [of n] digitsVal_def digitVal_digitChar)
  next
    case False
    with 1 have \<open>digitsVal (natToDec (n div 10)) = n div 10\<close>
      by simp
    with False show ?thesis
      by (simp add: natToDec.simps [of n] digitsVal_snoc digitVal_digitChar)
  qed
qed

lemma isDigit_natToDec: \<open>list_all isDigit (natToDec n)\<close>
proof (induction n rule: natToDec.induct)
  case (1 n)
  show ?case
  proof (cases \<open>n < 10\<close>)
    case True
    then show ?thesis
      by (simp add: natToDec.simps [of n] isDigit_digitChar)
  next
    case False
    with 1 show ?thesis
      by (simp add: natToDec.simps [of n] isDigit_digitChar)
  qed
qed

lemma natToDec_not_Nil: \<open>natToDec n \<noteq> []\<close>
  by (subst natToDec.simps) simp

lemma natToDec_inj: \<open>natToDec a = natToDec b \<Longrightarrow> a = b\<close>
  by (metis digitsVal_natToDec)

lemma itoa_nat: \<open>itoa (int n) = natToDec n\<close>
  by (simp add: itoa_def)

lemma itoa_Suc: \<open>itoa (int n + 1) = natToDec (Suc n)\<close>
proof -
  have \<open>int n + 1 = int (Suc n)\<close> by simp
  then show ?thesis by (simp only: itoa_nat)
qed

lemma minus_not_digit: \<open>\<not> isDigit CHR ''-''\<close> \<open>\<not> isDigit CHR ''+''\<close>
  by (simp_all add: isDigit_def)

lemma natToDec_hd_digit: \<open>\<exists>c cs. natToDec n = c # cs \<and> isDigit c\<close>
  using isDigit_natToDec [of n] natToDec_not_Nil [of n]
  by (cases \<open>natToDec n\<close>) auto

lemma Atoi_natToDec:
  assumes \<open>int n \<le> 2 ^ 63 - 1\<close>
  shows \<open>Atoi (natToDec n) = Some (int n)\<close>
proof -
  obtain c cs where c: \<open>natToDec n = c # cs\<close> \<open>isDigit c\<close>
    using natToDec_hd_digit by blast
  then have nc: \<open>c \<noteq> CHR ''-''\<close> \<open>c \<noteq> CHR ''+''\<close>
    using minus_not_digit by auto
  have all: \<open>list_all isDigit (c # cs)\<close>
    using isDigit_natToDec [of n] c by simp
  have v: \<open>digitsVal (c # cs) = n\<close>
    using digitsVal_natToDec [of n] c by simp
  show ?thesis
    unfolding Atoi_def c
    using nc all v assms by simp
qed

section \<open>Renumbering after a removal\<close>

lemma qid_inj: \<open>''q'' @ natToDec a = ''q'' @ natToDec b \<Longrightarrow> a = b\<close>
  using natToDec_inj by simp

lemma renumberStep_length: \<open>length (renumberStep i qs) = length qs\<close>
  by (simp add: renumberStep_def Let_def)

lemma renumberStep_nth:
  assumes \<open>i < length qs\<close> \<open>j < length qs\<close>
  shows \<open>ID (renumberStep i qs ! j) = (if j = i then ''q'' @ natToDec (Suc i) else ID (qs ! j))\<close>
    and \<open>ConditionalOn (renumberStep i qs ! j) =
          (if ConditionalOn (qs ! j) = ID (qs ! i) then ''q'' @ natToDec (Suc i)
           else ConditionalOn (qs ! j))\<close>
    and \<open>Question.Title (renumberStep i qs ! j) =
          (if j = i then replaceQuestionPrefix (Question.Title (qs ! j)) (int i + 1)
           else Question.Title (qs ! j))\<close>
    and \<open>Type (renumberStep i qs ! j) = Type (qs ! j)\<close>
    and \<open>Options (renumberStep i qs ! j) = Options (qs ! j)\<close>
    and \<open>Required (renumberStep i qs ! j) = Required (qs ! j)\<close>
  using assms
  by (auto simp: renumberStep_def Let_def itoa_Suc nth_list_update)

lemma fold_upt_Suc: \<open>fold f [0..<Suc m] x = f m (fold f [0..<m] x)\<close>
  by simp

lemma renumber_invariant:
  assumes ids: \<open>\<forall>j < length L. ID (L ! j) = ''q'' @ natToDec (if j < p - 1 then j + 1 else j + 2)\<close>
    and p: \<open>1 \<le> p\<close>
    and m: \<open>m \<le> length L\<close>
  shows \<open>length (fold renumberStep [0..<m] L) = length L \<and>
    (\<forall>j < length L.
       ID (fold renumberStep [0..<m] L ! j) =
         (if j < m then ''q'' @ natToDec (j + 1) else ID (L ! j)) \<and>
       Question.Title (fold renumberStep [0..<m] L ! j) =
         (if j < m then replaceQuestionPrefix (Question.Title (L ! j)) (int j + 1)
          else Question.Title (L ! j)) \<and>
       Type (fold renumberStep [0..<m] L ! j) = Type (L ! j) \<and>
       Options (fold renumberStep [0..<m] L ! j) = Options (L ! j) \<and>
       Required (fold renumberStep [0..<m] L ! j) = Required (L ! j) \<and>
       (\<forall>k. p < k \<and> k \<le> m + 1 \<and> ConditionalOn (L ! j) = ''q'' @ natToDec k \<longrightarrow>
            ConditionalOn (fold renumberStep [0..<m] L ! j) = ''q'' @ natToDec (k - 1)) \<and>
       ((\<forall>k. p < k \<and> k \<le> m + 1 \<longrightarrow> ConditionalOn (L ! j) \<noteq> ''q'' @ natToDec k) \<longrightarrow>
            ConditionalOn (fold renumberStep [0..<m] L ! j) = ConditionalOn (L ! j)))\<close>
  using m
proof (induction m)
  case 0
  then show ?case using p by auto
next
  case (Suc m)
  let ?S = \<open>fold renumberStep [0..<m] L\<close>
  let ?S' = \<open>fold renumberStep [0..<Suc m] L\<close>
  from Suc.prems have m: \<open>m < length L\<close> \<open>m \<le> length L\<close> by simp_all
  note IH = Suc.IH [OF m(2)]
  from IH have len: \<open>length ?S = length L\<close> by blast
  have S': \<open>?S' = renumberStep m ?S\<close> by simp
  have len': \<open>length ?S' = length L\<close>
    unfolding S' by (simp add: renumberStep_length len)
  have old: \<open>ID (?S ! m) = ''q'' @ natToDec (if m < p - 1 then m + 1 else m + 2)\<close>
    using IH m ids by simp
  have step: \<open>ID (?S' ! j) = (if j < Suc m then ''q'' @ natToDec (j + 1) else ID (L ! j)) \<and>
       Question.Title (?S' ! j) =
         (if j < Suc m then replaceQuestionPrefix (Question.Title (L ! j)) (int j + 1)
          else Question.Title (L ! j)) \<and>
       Type (?S' ! j) = Type (L ! j) \<and>
       Options (?S' ! j) = Options (L ! j) \<and>
       Required (?S' ! j) = Required (L ! j) \<and>
       (\<forall>k. p < k \<and> k \<le> Suc m + 1 \<and> ConditionalOn (L ! j) = ''q'' @ natToDec k \<longrightarrow>
            ConditionalOn (?S' ! j) = ''q'' @ natToDec (k - 1)) \<and>
       ((\<forall>k. p < k \<and> k \<le> Suc m + 1 \<longrightarrow> ConditionalOn (L ! j) \<noteq> ''q'' @ natToDec k) \<longrightarrow>
            ConditionalOn (?S' ! j) = ConditionalOn (L ! j))\<close>
    if j: \<open>j < length L\<close> for j
  proof -
    have mS: \<open>m < length ?S\<close> and jS: \<open>j < length ?S\<close>
      using m j len by simp_all
    note nth = renumberStep_nth [OF mS jS, folded S']
    from IH j have IHj:
      \<open>ID (?S ! j) = (if j < m then ''q'' @ natToDec (j + 1) else ID (L ! j))\<close>
      \<open>Question.Title (?S ! j) =
         (if j < m then replaceQuestionPrefix (Question.Title (L ! j)) (int j + 1)
          else Question.Title (L ! j))\<close>
      \<open>Type (?S ! j) = Type (L ! j)\<close>
      \<open>Options (?S ! j) = Options (L ! j)\<close>
      \<open>Required (?S ! j) = Required (L ! j)\<close>
      \<open>\<And>k. p < k \<Longrightarrow> k \<le> m + 1 \<Longrightarrow> ConditionalOn (L ! j) = ''q'' @ natToDec k \<Longrightarrow>
            ConditionalOn (?S ! j) = ''q'' @ natToDec (k - 1)\<close>
      \<open>(\<And>k. p < k \<Longrightarrow> k \<le> m + 1 \<Longrightarrow> ConditionalOn (L ! j) \<noteq> ''q'' @ natToDec k) \<Longrightarrow>
            ConditionalOn (?S ! j) = ConditionalOn (L ! j)\<close>
      by blast+
    have a: \<open>ID (?S' ! j) = (if j < Suc m then ''q'' @ natToDec (j + 1) else ID (L ! j))\<close>
      using nth(1) IHj(1) by auto
    have b: \<open>Question.Title (?S' ! j) =
         (if j < Suc m then replaceQuestionPrefix (Question.Title (L ! j)) (int j + 1)
          else Question.Title (L ! j))\<close>
      using nth(3) IHj(2) by auto
    have c: \<open>Type (?S' ! j) = Type (L ! j)\<close> \<open>Options (?S' ! j) = Options (L ! j)\<close>
      \<open>Required (?S' ! j) = Required (L ! j)\<close>
      using nth(4,5,6) IHj(3,4,5) by simp_all
    have d: \<open>ConditionalOn (?S' ! j) = ''q'' @ natToDec (k - 1)\<close>
      if k: \<open>p < k\<close> \<open>k \<le> Suc m + 1\<close> \<open>ConditionalOn (L ! j) = ''q'' @ natToDec k\<close> for k
    proof (cases \<open>k \<le> m + 1\<close>)
      case True
      then have cm: \<open>ConditionalOn (?S ! j) = ''q'' @ natToDec (k - 1)\<close>
        using IHj(6) k by blast
      have \<open>k - 1 \<noteq> (if m < p - 1 then m + 1 else m + 2)\<close>
        using True k(1) by auto
      then have \<open>ConditionalOn (?S ! j) \<noteq> ID (?S ! m)\<close>
        unfolding cm old using qid_inj by blast
      then show ?thesis
        using nth(2) cm by simp
    next
      case False
      with k have keq: \<open>k = m + 2\<close> by simp
      with k(1) have pm: \<open>\<not> m < p - 1\<close> by auto
      have \<open>ConditionalOn (L ! j) \<noteq> ''q'' @ natToDec k'\<close> if \<open>p < k'\<close> \<open>k' \<le> m + 1\<close> for k'
        using that k(3) keq qid_inj by force
      then have cm: \<open>ConditionalOn (?S ! j) = ConditionalOn (L ! j)\<close>
        using IHj(7) by blast
      have \<open>ConditionalOn (?S ! j) = ID (?S ! m)\<close>
        unfolding cm old using k(3) keq pm by simp
      then show ?thesis
        using nth(2) keq by simp
    qed
    have e: \<open>ConditionalOn (?S' ! j) = ConditionalOn (L ! j)\<close>
      if none: \<open>\<And>k. p < k \<Longrightarrow> k \<le> Suc m + 1 \<Longrightarrow> ConditionalOn (L ! j) \<noteq> ''q'' @ natToDec k\<close>
    proof -
      have cm: \<open>ConditionalOn (?S ! j) = ConditionalOn (L ! j)\<close>
        using IHj(7) none by simp
      show ?thesis
      proof (cases \<open>m < p - 1\<close>)
        case True
        then have \<open>ID (?S ! m) = ''q'' @ natToDec (Suc m)\<close>
          using old by simp
        then show ?thesis
          using nth(2) cm by auto
      next
        case False
        then have \<open>p < m + 2\<close> by auto
        then have \<open>ConditionalOn (L ! j) \<noteq> ''q'' @ natToDec (m + 2)\<close>
          using none by simp
        then have \<open>ConditionalOn (?S ! j) \<noteq> ID (?S ! m)\<close>
          unfolding cm old using False by simp
        then show ?thesis
          using nth(2) cm by simp
      qed
    qed
    show ?thesis
      using a b c d e by blast
  qed
  show ?case
    using len' step by blast
qed

lemma Index_colon:
  \<open>CHR '':'' \<notin> set pre \<Longrightarrow> Index (pre @ CHR '':'' # rest) '':'' = Some (length pre)\<close>
  by (induction pre) auto

lemma replaceQuestionPrefix_numbered:
  assumes \<open>CHR '':'' \<notin> set ds\<close>
  shows \<open>replaceQuestionPrefix (''Q'' @ ds @ '':'' @ rest) m = ''Q'' @ itoa m @ '':'' @ rest\<close>
proof -
  have \<open>Index ((CHR ''Q'' # ds) @ CHR '':'' # rest) '':'' = Some (length (CHR ''Q'' # ds))\<close>
    using assms by (intro Index_colon) simp
  then show ?thesis
    by (simp add: replaceQuestionPrefix_def)
qed

text \<open>
  C2. Let the questions of a chapter carry the ids \<^verbatim>\<open>q1\<close> to \<^verbatim>\<open>qn\<close> in order, and let the
  line typed at the prompt parse to a position \<open>p\<close> between 1 and \<open>n\<close>. Then
  \<^verbatim>\<open>removeQuestion\<close> succeeds and changes the questions only; \<open>n - 1\<close> questions stay,
  the one at \<open>p\<close> is gone and the others keep their order. The question now at position
  \<open>j + 1\<close> has the id \<^verbatim>\<open>q(j+1)\<close>, its title has passed through
  \<^verbatim>\<open>replaceQuestionPrefix\<close> with \<open>j + 1\<close> (which turns a prefix \<^verbatim>\<open>Q<digits>:\<close> into
  \<^verbatim>\<open>Q(j+1):\<close>), its kind, options and required flag are as before, a \<^verbatim>\<open>ConditionalOn\<close>
  that was \<^verbatim>\<open>qk\<close> with \<open>p < k \<le> n\<close> is now \<^verbatim>\<open>q(k-1)\<close>, and any other
  \<^verbatim>\<open>ConditionalOn\<close> is as before.
\<close>

theorem remove_question_renumbers:
  assumes ids: \<open>\<forall>i < length (Questions ch). ID (Questions ch ! i) = ''q'' @ itoa (int i + 1)\<close>
    and p: \<open>1 \<le> p\<close> \<open>p \<le> length (Questions ch)\<close>
    and input: \<open>Atoi (TrimSpace idxStr) = Some (int p)\<close>
  shows \<open>\<exists>ch'. removeQuestion idxStr ch = Inr ch' \<and>
     ch' = ch\<lparr>Questions := Questions ch'\<rparr> \<and>
     length (Questions ch') = length (Questions ch) - 1 \<and>
     (\<forall>j < length (Questions ch) - 1.
        (let old = Questions ch ! (if j < p - 1 then j else j + 1);
             new = Questions ch' ! j
         in ID new = ''q'' @ itoa (int j + 1) \<and>
            Question.Title new = replaceQuestionPrefix (Question.Title old) (int j + 1) \<and>
            Type new = Type old \<and> Options new = Options old \<and> Required new = Required old \<and>
            (\<forall>k. p < k \<and> k \<le> length (Questions ch) \<and> ConditionalOn old = ''q'' @ itoa (int k) \<longrightarrow>
                 ConditionalOn new = ''q'' @ itoa (int k - 1)) \<and>
            ((\<forall>k. p < k \<and> k \<le> length (Questions ch) \<longrightarrow>
                  ConditionalOn old \<noteq> ''q'' @ itoa (int k)) \<longrightarrow>
                 ConditionalOn new = ConditionalOn old))) \<and>
     (CHR '':'' \<notin> set ds \<longrightarrow>
        replaceQuestionPrefix (''Q'' @ ds @ '':'' @ rest) m = ''Q'' @ itoa m @ '':'' @ rest)\<close>
proof -
  let ?qs = \<open>Questions ch\<close>
  let ?n = \<open>length ?qs\<close>
  let ?L = \<open>take (p - 1) ?qs @ drop p ?qs\<close>
  let ?R = \<open>renumberQuestions ?L\<close>
  have lenL: \<open>length ?L = ?n - 1\<close>
    using p by simp
  have nthL: \<open>?L ! j = ?qs ! (if j < p - 1 then j else j + 1)\<close> if \<open>j < ?n - 1\<close> for j
    using that p by (auto simp: nth_append)
  have idsL: \<open>\<forall>j < length ?L. ID (?L ! j) = ''q'' @ natToDec (if j < p - 1 then j + 1 else j + 2)\<close>
  proof (intro allI impI)
    fix j assume j: \<open>j < length ?L\<close>
    then have j': \<open>j < ?n - 1\<close> using lenL by simp
    then have \<open>(if j < p - 1 then j else j + 1) < ?n\<close> by auto
    then have \<open>ID (?qs ! (if j < p - 1 then j else j + 1)) =
        ''q'' @ natToDec (Suc (if j < p - 1 then j else j + 1))\<close>
      using ids itoa_Suc by simp
    then show \<open>ID (?L ! j) = ''q'' @ natToDec (if j < p - 1 then j + 1 else j + 2)\<close>
      using nthL [OF j'] by (simp split: if_splits)
  qed
  note inv = renumber_invariant [OF idsL p(1) order_refl, folded renumberQuestions_def]
  have run: \<open>removeQuestion idxStr ch = Inr (ch\<lparr>Questions := ?R\<rparr>)\<close>
  proof -
    have \<open>nat (int p - 1) = p - 1\<close> \<open>Suc (p - 1) = p\<close> \<open>Questions ch \<noteq> []\<close>
      using p by auto
    then show ?thesis
      using p input by (simp add: removeQuestion_def Let_def)
  qed
  have lenR: \<open>length ?R = ?n - 1\<close>
    using inv lenL by simp
  have each: \<open>let old = ?qs ! (if j < p - 1 then j else j + 1); new = ?R ! j
         in ID new = ''q'' @ itoa (int j + 1) \<and>
            Question.Title new = replaceQuestionPrefix (Question.Title old) (int j + 1) \<and>
            Type new = Type old \<and> Options new = Options old \<and> Required new = Required old \<and>
            (\<forall>k. p < k \<and> k \<le> ?n \<and> ConditionalOn old = ''q'' @ itoa (int k) \<longrightarrow>
                 ConditionalOn new = ''q'' @ itoa (int k - 1)) \<and>
            ((\<forall>k. p < k \<and> k \<le> ?n \<longrightarrow> ConditionalOn old \<noteq> ''q'' @ itoa (int k)) \<longrightarrow>
                 ConditionalOn new = ConditionalOn old)\<close>
    if j: \<open>j < ?n - 1\<close> for j
  proof -
    have jL: \<open>j < length ?L\<close> using j lenL by simp
    have n1: \<open>length ?L + 1 = ?n\<close> using p lenL by simp
    have dec: \<open>itoa (int k - 1) = natToDec (k - 1)\<close> if \<open>p < k\<close> for k
    proof -
      have \<open>int k - 1 = int (k - 1)\<close> using that by simp
      then show ?thesis by (simp only: itoa_nat)
    qed
    from inv jL have
      \<open>ID (?R ! j) = ''q'' @ natToDec (j + 1)\<close>
      \<open>Question.Title (?R ! j) = replaceQuestionPrefix (Question.Title (?L ! j)) (int j + 1)\<close>
      \<open>Type (?R ! j) = Type (?L ! j)\<close>
      \<open>Options (?R ! j) = Options (?L ! j)\<close>
      \<open>Required (?R ! j) = Required (?L ! j)\<close>
      \<open>\<forall>k. p < k \<and> k \<le> length ?L + 1 \<and> ConditionalOn (?L ! j) = ''q'' @ natToDec k \<longrightarrow>
            ConditionalOn (?R ! j) = ''q'' @ natToDec (k - 1)\<close>
      \<open>(\<forall>k. p < k \<and> k \<le> length ?L + 1 \<longrightarrow> ConditionalOn (?L ! j) \<noteq> ''q'' @ natToDec k) \<longrightarrow>
            ConditionalOn (?R ! j) = ConditionalOn (?L ! j)\<close>
      by simp_all
    then show ?thesis
      unfolding Let_def nthL [OF j, symmetric] n1
      using itoa_Suc [of j] dec by (simp add: itoa_nat)
  qed
  have \<open>removeQuestion idxStr ch = Inr (ch\<lparr>Questions := ?R\<rparr>) \<and>
     ch\<lparr>Questions := ?R\<rparr> = ch\<lparr>Questions := Questions (ch\<lparr>Questions := ?R\<rparr>)\<rparr> \<and>
     length (Questions (ch\<lparr>Questions := ?R\<rparr>)) = ?n - 1 \<and>
     (\<forall>j < ?n - 1.
        (let old = ?qs ! (if j < p - 1 then j else j + 1);
             new = Questions (ch\<lparr>Questions := ?R\<rparr>) ! j
         in ID new = ''q'' @ itoa (int j + 1) \<and>
            Question.Title new = replaceQuestionPrefix (Question.Title old) (int j + 1) \<and>
            Type new = Type old \<and> Options new = Options old \<and> Required new = Required old \<and>
            (\<forall>k. p < k \<and> k \<le> ?n \<and> ConditionalOn old = ''q'' @ itoa (int k) \<longrightarrow>
                 ConditionalOn new = ''q'' @ itoa (int k - 1)) \<and>
            ((\<forall>k. p < k \<and> k \<le> ?n \<longrightarrow> ConditionalOn old \<noteq> ''q'' @ itoa (int k)) \<longrightarrow>
                 ConditionalOn new = ConditionalOn old)))\<close>
    using run lenR each by simp
  then show ?thesis
    using replaceQuestionPrefix_numbered by blast
qed

theorem remove_question_renumbers_witness:
  \<open>map ID (Questions chainChapter) = [''q'' @ itoa 1, ''q'' @ itoa 2, ''q'' @ itoa 3] \<and>
   (1::nat) \<le> 1 \<and> 1 \<le> length (Questions chainChapter) \<and>
   Atoi (TrimSpace ''1'') = Some (int 1) \<and>
   (\<exists>ch'. removeQuestion ''1'' chainChapter = Inr ch' \<and>
      length (Questions ch') = 2 \<and>
      ID (Questions ch' ! 1) = ''q2'' \<and>
      Question.Title (Questions ch' ! 1) = ''Q2: Which ages?'' \<and>
      ConditionalOn (Questions ch' ! 1) = ''q1'')\<close>
proof -
  have len: \<open>length (Questions chainChapter) = 3\<close>
    by (simp add: chainChapter_def)
  have dec: \<open>itoa 1 = ''1''\<close> \<open>itoa 2 = ''2''\<close> \<open>itoa 3 = ''3''\<close>
    by (simp_all add: itoa_def natToDec.simps digitChar_def)
  have ids: \<open>\<forall>i < length (Questions chainChapter).
      ID (Questions chainChapter ! i) = ''q'' @ itoa (int i + 1)\<close>
    unfolding len
    by (simp add: chainChapter_def chainQ1_def chainQ2_def chainQ3_def dec
        less_Suc_eq numeral_3_eq_3)
  have p: \<open>(1::nat) \<le> 1\<close> \<open>1 \<le> length (Questions chainChapter)\<close>
    by (simp_all add: len)
  have input: \<open>Atoi (TrimSpace ''1'') = Some (int 1)\<close>
    by (simp add: TrimSpace_def asciiSpace_def space2_def space3_def Atoi_def isDigit_def
        digitsVal_def digitVal_def)
  have q3: \<open>Questions chainChapter ! Suc (Suc 0) = chainQ3\<close>
    by (simp add: chainChapter_def)
  from remove_question_renumbers [OF ids p input, of \<open>''3''\<close> \<open>'' Which ages?''\<close> 2]
  obtain ch' where run: \<open>removeQuestion ''1'' chainChapter = Inr ch'\<close>
    and l: \<open>length (Questions ch') = length (Questions chainChapter) - 1\<close>
    and each: \<open>\<forall>j < length (Questions chainChapter) - 1.
        (let old = Questions chainChapter ! (if j < 1 - 1 then j else j + 1);
             new = Questions ch' ! j
         in ID new = ''q'' @ itoa (int j + 1) \<and>
            Question.Title new = replaceQuestionPrefix (Question.Title old) (int j + 1) \<and>
            Type new = Type old \<and> Options new = Options old \<and> Required new = Required old \<and>
            (\<forall>k. 1 < k \<and> k \<le> length (Questions chainChapter) \<and>
                 ConditionalOn old = ''q'' @ itoa (int k) \<longrightarrow>
                 ConditionalOn new = ''q'' @ itoa (int k - 1)) \<and>
            ((\<forall>k. 1 < k \<and> k \<le> length (Questions chainChapter) \<longrightarrow>
                  ConditionalOn old \<noteq> ''q'' @ itoa (int k)) \<longrightarrow>
                 ConditionalOn new = ConditionalOn old))\<close>
    and pre: \<open>CHR '':'' \<notin> set ''3'' \<longrightarrow>
        replaceQuestionPrefix (''Q'' @ ''3'' @ '':'' @ '' Which ages?'') 2 =
        ''Q'' @ itoa 2 @ '':'' @ '' Which ages?''\<close>
    by blast
  from each [rule_format, of 1] have one:
    \<open>ID (Questions ch' ! 1) = ''q'' @ itoa 2\<close>
    \<open>Question.Title (Questions ch' ! 1) = replaceQuestionPrefix (Question.Title chainQ3) 2\<close>
    \<open>\<forall>k. 1 < k \<and> k \<le> 3 \<and> ConditionalOn chainQ3 = ''q'' @ itoa (int k) \<longrightarrow>
         ConditionalOn (Questions ch' ! 1) = ''q'' @ itoa (int k - 1)\<close>
    by (simp_all add: len q3 Let_def)
  from one(3) [rule_format, of 2] have c: \<open>ConditionalOn (Questions ch' ! 1) = ''q1''\<close>
    by (simp add: dec chainQ3_def)
  from pre one(2) have t: \<open>Question.Title (Questions ch' ! 1) = ''Q2: Which ages?''\<close>
    by (simp add: dec chainQ3_def)
  have ids': \<open>map ID (Questions chainChapter) = [''q'' @ itoa 1, ''q'' @ itoa 2, ''q'' @ itoa 3]\<close>
    by (simp add: chainChapter_def chainQ1_def chainQ2_def chainQ3_def dec)
  show ?thesis
    using ids' p input run l one(1) t c by (simp add: len dec)
qed

section \<open>Matching\<close>

lemma tryEach_Some: \<open>tryEach f ks = Some r \<Longrightarrow> \<exists>k \<in> set ks. f k = Some r\<close>
  by (induction ks) (auto split: option.splits)

lemma tryEach_None: \<open>tryEach f ks = None \<longleftrightarrow> (\<forall>k \<in> set ks. f k = None)\<close>
  by (induction ks) (auto split: option.splits)

lemma tryEach_first: \<open>f k = Some r \<Longrightarrow> tryEach f (k # ks) = Some r\<close>
  by simp

lemma tryEach_rev_upt_last:
  \<open>a \<le> n \<Longrightarrow> f n = Some r \<Longrightarrow> tryEach f (rev [a..<Suc n]) = Some r\<close>
  by simp

lemma searchFrom_Some:
  \<open>searchFrom re s pos = Some (b, e, gs) \<Longrightarrow>
     \<exists>i \<le> length s. b = pos + i \<and> matchHere re (drop i s) (pos + i) [] [] = Some (e, gs) \<and>
       (\<forall>j < i. matchHere re (drop j s) (pos + j) [] [] = None)\<close>
proof (induction s arbitrary: pos)
  case Nil
  then show ?case by (auto split: option.splits)
next
  case (Cons c s)
  show ?case
  proof (cases \<open>matchHere re (c # s) pos [] []\<close>)
    case None
    with Cons.prems have \<open>searchFrom re s (Suc pos) = Some (b, e, gs)\<close>
      by simp
    from Cons.IH [OF this] obtain i where i: \<open>i \<le> length s\<close> \<open>b = Suc pos + i\<close>
      \<open>matchHere re (drop i s) (Suc pos + i) [] [] = Some (e, gs)\<close>
      \<open>\<forall>j < i. matchHere re (drop j s) (Suc pos + j) [] [] = None\<close>
      by blast
    have \<open>matchHere re (drop j (c # s)) (pos + j) [] [] = None\<close> if \<open>j < Suc i\<close> for j
      using that None i(4) by (cases j) auto
    with i(1,2,3) show ?thesis
      by (intro exI [of _ \<open>Suc i\<close>]) auto
  next
    case (Some r)
    with Cons.prems show ?thesis
      by (intro exI [of _ 0]) (auto split: prod.splits)
  qed
qed

lemma searchFrom_None:
  \<open>searchFrom re s pos = None \<longleftrightarrow>
     (\<forall>i \<le> length s. matchHere re (drop i s) (pos + i) [] [] = None)\<close>
proof (induction s arbitrary: pos)
  case Nil
  then show ?case by (auto split: option.splits)
next
  case (Cons c s)
  show ?case
  proof (cases \<open>matchHere re (c # s) pos [] []\<close>)
    case None
    have \<open>(\<forall>i \<le> length (c # s). matchHere re (drop i (c # s)) (pos + i) [] [] = None) \<longleftrightarrow>
          (\<forall>i \<le> length s. matchHere re (drop i s) (Suc pos + i) [] [] = None)\<close>
    proof
      assume a: \<open>\<forall>i \<le> length (c # s). matchHere re (drop i (c # s)) (pos + i) [] [] = None\<close>
      show \<open>\<forall>i \<le> length s. matchHere re (drop i s) (Suc pos + i) [] [] = None\<close>
      proof (intro allI impI)
        fix i assume \<open>i \<le> length s\<close>
        with a [rule_format, of \<open>Suc i\<close>] show \<open>matchHere re (drop i s) (Suc pos + i) [] [] = None\<close>
          by simp
      qed
    next
      assume a: \<open>\<forall>i \<le> length s. matchHere re (drop i s) (Suc pos + i) [] [] = None\<close>
      show \<open>\<forall>i \<le> length (c # s). matchHere re (drop i (c # s)) (pos + i) [] [] = None\<close>
      proof (intro allI impI)
        fix i assume \<open>i \<le> length (c # s)\<close>
        with a None show \<open>matchHere re (drop i (c # s)) (pos + i) [] [] = None\<close>
          by (cases i) auto
      qed
    qed
    with None Cons.IH [of \<open>Suc pos\<close>] show ?thesis
      by simp
  next
    case (Some r)
    then have \<open>matchHere re (drop 0 (c # s)) (pos + 0) [] [] \<noteq> None\<close>
      by simp
    with Some show ?thesis
      by (auto split: prod.splits)
  qed
qed

lemma takeWhile_run:
  \<open>\<forall>c \<in> set ds. P c \<Longrightarrow> rest = [] \<or> \<not> P (hd rest) \<Longrightarrow> takeWhile P (ds @ rest) = ds\<close>
  by (cases rest) (auto simp: takeWhile_append)

section \<open>The chapter number in a file name\<close>

lemma isDigit_not_special:
  \<open>isDigit c \<Longrightarrow> c \<noteq> CHR ''_'' \<and> c \<noteq> CHR ''.'' \<and> c \<noteq> CHR ''-'' \<and> c \<noteq> CHR ''+'' \<and> c \<noteq> CHR '':''\<close>
  by (auto simp: isDigit_def)

lemma Atoi_digits:
  assumes \<open>ds \<noteq> []\<close> \<open>list_all isDigit ds\<close>
  shows \<open>Atoi ds = (if int (digitsVal ds) \<le> 2 ^ 63 - 1 then Some (int (digitsVal ds)) else None)\<close>
proof -
  from assms obtain c cs where c: \<open>ds = c # cs\<close> \<open>isDigit c\<close>
    by (cases ds) auto
  then have \<open>c \<noteq> CHR ''-''\<close> \<open>c \<noteq> CHR ''+''\<close>
    using isDigit_not_special by auto
  then show ?thesis
    using assms(2) unfolding Atoi_def c(1) by (simp add: Let_def)
qed

lemma Atoi_Nil: \<open>Atoi [] = None\<close>
  by (simp add: Atoi_def)

lemma matchHere_Lit:
  \<open>matchHere (Lit l # r) (l @ s) pos opened gs = matchHere r s (pos + length l) opened gs\<close>
  by simp

lemma matchHere_Lit_Some:
  \<open>matchHere (Lit l # r) s pos opened gs = Some x \<Longrightarrow>
     \<exists>s'. s = l @ s' \<and> matchHere r s' (pos + length l) opened gs = Some x\<close>
  by (auto simp: prefix_def split: if_splits)

lemma matchHere_Plus_Some:
  \<open>matchHere (Plus cl # r) s pos opened gs = Some x \<Longrightarrow>
     \<exists>k. 1 \<le> k \<and> k \<le> length (takeWhile (inClass cl) s) \<and>
         matchHere r (drop k s) (pos + k) opened gs = Some x\<close>
proof -
  assume \<open>matchHere (Plus cl # r) s pos opened gs = Some x\<close>
  then have \<open>tryEach (\<lambda>k. matchHere r (drop k s) (pos + k) opened gs)
       (rev [1..<Suc (length (takeWhile (inClass cl) s))]) = Some x\<close>
    by (simp only: matchHere.simps)
  from tryEach_Some [OF this] show ?thesis
    by fastforce
qed

lemma matchHere_Plus_longest:
  assumes \<open>takeWhile (inClass cl) s = run\<close> \<open>run \<noteq> []\<close>
    and \<open>matchHere r (drop (length run) s) (pos + length run) opened gs = Some x\<close>
  shows \<open>matchHere (Plus cl # r) s pos opened gs = Some x\<close>
proof -
  have \<open>1 \<le> length run\<close>
    using assms(2) by (cases run) auto
  then have \<open>tryEach (\<lambda>k. matchHere r (drop k s) (pos + k) opened gs)
       (rev [1..<Suc (length run)]) = Some x\<close>
    using assms(3) by (intro tryEach_rev_upt_last)
  then show ?thesis
    by (simp only: matchHere.simps assms(1))
qed

lemma take_takeWhile_all:
  \<open>k \<le> length (takeWhile P s) \<Longrightarrow> list_all P (take k s) \<and> length (take k s) = k\<close>
proof (induction s arbitrary: k)
  case Nil
  then show ?case by simp
next
  case (Cons c s)
  then show ?case
    by (cases k) (auto split: if_splits)
qed

lemma number_match_iff:
  \<open>matchHere [Lit ''_'', Open 1, Plus Digit, Close 1, Lit ''.html'', Eol] s pos [] [] = Some (e, gs)
   \<longleftrightarrow> (\<exists>ds. ds \<noteq> [] \<and> list_all isDigit ds \<and> s = ''_'' @ ds @ ''.html'' \<and>
           e = pos + length s \<and> gs = [(1, pos + 1, pos + 1 + length ds)])\<close>
  (is \<open>?L \<longleftrightarrow> ?R\<close>)
proof
  assume L: ?L
  from matchHere_Lit_Some [OF L] obtain s1 where s: \<open>s = ''_'' @ s1\<close>
    and m1: \<open>matchHere [Open 1, Plus Digit, Close 1, Lit ''.html'', Eol] s1 (pos + length ''_'') [] []
         = Some (e, gs)\<close>
    by blast
  from m1 have \<open>matchHere [Plus Digit, Close 1, Lit ''.html'', Eol] s1 (pos + 1) [(1, pos + 1)] []
         = Some (e, gs)\<close>
    by simp
  from matchHere_Plus_Some [OF this] obtain k where k: \<open>1 \<le> k\<close>
    \<open>k \<le> length (takeWhile (inClass Digit) s1)\<close>
    \<open>matchHere [Close 1, Lit ''.html'', Eol] (drop k s1) (pos + 1 + k) [(1, pos + 1)] []
       = Some (e, gs)\<close>
    by blast
  from k(3) have \<open>matchHere [Lit ''.html'', Eol] (drop k s1) (pos + 1 + k) [(1, pos + 1)]
       [(1, pos + 1, pos + 1 + k)] = Some (e, gs)\<close>
    by simp
  from matchHere_Lit_Some [OF this] obtain s2 where s2: \<open>drop k s1 = ''.html'' @ s2\<close>
    and m2: \<open>matchHere [Eol] s2 (pos + 1 + k + length ''.html'') [(1, pos + 1)]
       [(1, pos + 1, pos + 1 + k)] = Some (e, gs)\<close>
    by blast
  from m2 have fin: \<open>s2 = []\<close> \<open>e = pos + 1 + k + 5\<close> \<open>gs = [(1, pos + 1, pos + 1 + k)]\<close>
    by (auto split: if_splits)
  have tk: \<open>list_all isDigit (take k s1)\<close> \<open>length (take k s1) = k\<close>
    using take_takeWhile_all [OF k(2)] by (simp_all add: list_all_iff)
  have s1: \<open>s1 = take k s1 @ ''.html''\<close>
    using s2 fin(1) append_take_drop_id [of k s1] by simp
  have \<open>length s1 = k + 5\<close>
    by (subst s1) (simp add: tk(2) del: length_take)
  then have \<open>s = ''_'' @ take k s1 @ ''.html''\<close> \<open>length s = 1 + k + 5\<close>
    using s s1 by simp_all
  with k(1) tk fin show ?R
    by (intro exI [of _ \<open>take k s1\<close>]) auto
next
  assume ?R
  then obtain ds where ds: \<open>ds \<noteq> []\<close> \<open>list_all isDigit ds\<close> \<open>s = ''_'' @ ds @ ''.html''\<close>
    \<open>e = pos + length s\<close> \<open>gs = [(1, pos + 1, pos + 1 + length ds)]\<close>
    by blast
  have tw: \<open>takeWhile (inClass Digit) (ds @ ''.html'') = ds\<close>
    using ds(2) by (intro takeWhile_run) (auto simp: list_all_iff isDigit_def)
  have \<open>matchHere [Close 1, Lit ''.html'', Eol] (drop (length ds) (ds @ ''.html''))
          (pos + 1 + length ds) [(1, pos + 1)] [] = Some (e, gs)\<close>
    using ds(3,4,5) by simp
  from matchHere_Plus_longest [OF tw ds(1) this]
  show ?L
    unfolding ds(3) by simp
qed

lemma digits_after_underscore:
  assumes \<open>xs @ CHR ''_'' # ds = ys @ CHR ''_'' # ds'\<close>
    and \<open>list_all isDigit ds\<close> \<open>list_all isDigit ds'\<close>
  shows \<open>ds = ds'\<close>
proof -
  have a: \<open>takeWhile (\<lambda>c. c \<noteq> CHR ''_'') (rev (xs @ CHR ''_'' # ds)) = rev ds\<close>
    using assms(2) isDigit_not_special
    by (auto simp: list_all_iff takeWhile_append takeWhile_eq_all_conv)
  have b: \<open>takeWhile (\<lambda>c. c \<noteq> CHR ''_'') (rev (ys @ CHR ''_'' # ds')) = rev ds'\<close>
    using assms(3) isDigit_not_special
    by (auto simp: list_all_iff takeWhile_append takeWhile_eq_all_conv)
  from a b assms(1) show ?thesis
    by (metis rev_rev_ident)
qed

declare matchHere.simps [simp del]

lemma set_if_found:
  \<open>(case g of Some m \<Rightarrow> ch\<lparr>EmailLabel := f m\<rparr> | None \<Rightarrow> ch) =
     ch\<lparr>EmailLabel := (case g of Some m \<Rightarrow> f m | None \<Rightarrow> EmailLabel ch)\<rparr>\<close>
  \<open>(case g of Some m \<Rightarrow> ch\<lparr>EmailPlaceH := f m\<rparr> | None \<Rightarrow> ch) =
     ch\<lparr>EmailPlaceH := (case g of Some m \<Rightarrow> f m | None \<Rightarrow> EmailPlaceH ch)\<rparr>\<close>
  \<open>(case g of Some m \<Rightarrow> ch\<lparr>SubmitText := f m\<rparr> | None \<Rightarrow> ch) =
     ch\<lparr>SubmitText := (case g of Some m \<Rightarrow> f m | None \<Rightarrow> SubmitText ch)\<rparr>\<close>
  \<open>(case g of Some m \<Rightarrow> ch\<lparr>ResetText := f m\<rparr> | None \<Rightarrow> ch) =
     ch\<lparr>ResetText := (case g of Some m \<Rightarrow> f m | None \<Rightarrow> ResetText ch)\<rparr>\<close>
  \<open>(case g of Some m \<Rightarrow> ch\<lparr>SuccessMsg := f m\<rparr> | None \<Rightarrow> ch) =
     ch\<lparr>SuccessMsg := (case g of Some m \<Rightarrow> f m | None \<Rightarrow> SuccessMsg ch)\<rparr>\<close>
  \<open>(case g of Some m \<Rightarrow> ch\<lparr>SummaryTitle := f m\<rparr> | None \<Rightarrow> ch) =
     ch\<lparr>SummaryTitle := (case g of Some m \<Rightarrow> f m | None \<Rightarrow> SummaryTitle ch)\<rparr>\<close>
  \<open>(case g of Some m \<Rightarrow> ch\<lparr>ChapterName := f m\<rparr> | None \<Rightarrow> ch\<lparr>ChapterName := d\<rparr>) =
     ch\<lparr>ChapterName := (case g of Some m \<Rightarrow> f m | None \<Rightarrow> d)\<rparr>\<close>
  by (cases g; simp)+

text \<open>What a successful decoding sets the fields the claims are about to.\<close>

lemma parseChapterFile_fields:
  assumes \<open>Atoi (extractChapterNumber (Base f)) = Some num\<close>
  shows \<open>\<exists>ch. parseChapterFile f (Some content) lang = Inr ch \<and>
     Number ch = num \<and> Language ch = lang \<and>
     Chapter.Title ch = extractBetweenTags content ''<title>'' ''</title>'' \<and>
     Heading ch = extractBetweenTags content ''<h1>'' ''</h1>'' \<and>
     Questions ch = detectConditionals content (extractQuestions content) \<and>
     Conversation ch = extractConversation content lang \<and>
     HasCustomCSS ch = Contains content ''.checkbox-group''\<close>
  using assms
  by (simp add: parseChapterFile_def Let_def set_if_found)

lemma parseChapterFile_error:
  \<open>parseChapterFile f (Some content) lang = Inl err \<longleftrightarrow>
     err = InvalidChapterNumber (Base f) \<and> Atoi (extractChapterNumber (Base f)) = None\<close>
proof (cases \<open>Atoi (extractChapterNumber (Base f))\<close>)
  case None
  then show ?thesis
    by (auto simp: parseChapterFile_def Let_def)
next
  case (Some num)
  from parseChapterFile_fields [OF this, of content lang] obtain ch
    where \<open>parseChapterFile f (Some content) lang = Inr ch\<close>
    by blast
  with Some show ?thesis
    by simp
qed

lemma parseChapterFile_unreadable: \<open>parseChapterFile f None lang = Inl ReadError\<close>
  by (simp add: parseChapterFile_def)

lemma slice_middle: \<open>slice (a @ b @ c) (length a) (length a + length b) = b\<close>
  by (simp add: slice_def)

lemma extractChapterNumber_valid:
  assumes \<open>b = pre @ ''_'' @ ds @ ''.html''\<close> \<open>ds \<noteq> []\<close> \<open>list_all isDigit ds\<close>
  shows \<open>extractChapterNumber b = ds\<close>
proof -
  let ?re = \<open>[Lit ''_'', Open 1, Plus Digit, Close 1, Lit ''.html'', Eol]\<close>
  have here: \<open>matchHere ?re (drop (length pre) b) (0 + length pre) [] [] \<noteq> None\<close>
    using number_match_iff [of \<open>drop (length pre) b\<close> \<open>0 + length pre\<close>] assms by auto
  have \<open>searchFrom ?re b 0 \<noteq> None\<close>
  proof
    assume \<open>searchFrom ?re b 0 = None\<close>
    then have \<open>\<forall>i \<le> length b. matchHere ?re (drop i b) (0 + i) [] [] = None\<close>
      unfolding searchFrom_None .
    moreover have \<open>length pre \<le> length b\<close>
      using assms(1) by simp
    ultimately have \<open>matchHere ?re (drop (length pre) b) (0 + length pre) [] [] = None\<close>
      by blast
    with here show False by simp
  qed
  then obtain st e gs where found: \<open>searchFrom ?re b 0 = Some (st, e, gs)\<close>
    by (cases \<open>searchFrom ?re b 0\<close>) auto
  from searchFrom_Some [OF this] obtain i where i: \<open>i \<le> length b\<close>
    \<open>matchHere ?re (drop i b) (0 + i) [] [] = Some (e, gs)\<close>
    by blast
  from i(2) number_match_iff [of \<open>drop i b\<close> \<open>0 + i\<close> e gs]
  obtain ds' where ds': \<open>ds' \<noteq> []\<close> \<open>list_all isDigit ds'\<close> \<open>drop i b = ''_'' @ ds' @ ''.html''\<close>
    \<open>gs = [(1, i + 1, i + 1 + length ds')]\<close>
    by auto
  define t where \<open>t = take i b\<close>
  have li: \<open>length t = i\<close>
    using i(1) by (simp add: t_def)
  have b': \<open>b = t @ ''_'' @ ds' @ ''.html''\<close>
    using ds'(3) append_take_drop_id [of i b] by (simp add: t_def)
  have \<open>(pre @ CHR ''_'' # ds) @ ''.html'' = (t @ CHR ''_'' # ds') @ ''.html''\<close>
    using assms(1) b' by simp
  then have \<open>pre @ CHR ''_'' # ds = t @ CHR ''_'' # ds'\<close>
    by (simp only: append_same_eq)
  then have eq: \<open>ds = ds'\<close>
    using digits_after_underscore assms(3) ds'(2) by blast
  have \<open>b = (t @ ''_'') @ ds' @ ''.html''\<close>
    using b' by simp
  then have \<open>slice b (length (t @ ''_'')) (length (t @ ''_'') + length ds') = ds'\<close>
    using slice_middle [of \<open>t @ ''_''\<close> ds' \<open>''.html''\<close>] by simp
  then have \<open>slice b (i + 1) (i + 1 + length ds') = ds'\<close>
    using li by simp
  then show ?thesis
    using found ds'(4) eq
    by (simp add: extractChapterNumber_def firstGroup_def FindStringSubmatch_def groupText_def)
qed

lemma extractChapterNumber_invalid:
  assumes \<open>\<nexists>pre ds. b = pre @ ''_'' @ ds @ ''.html'' \<and> ds \<noteq> [] \<and> list_all isDigit ds\<close>
  shows \<open>extractChapterNumber b = []\<close>
proof -
  let ?re = \<open>[Lit ''_'', Open 1, Plus Digit, Close 1, Lit ''.html'', Eol]\<close>
  have \<open>searchFrom ?re b 0 = None\<close>
  proof (rule ccontr)
    assume \<open>searchFrom ?re b 0 \<noteq> None\<close>
    then obtain st e gs where \<open>searchFrom ?re b 0 = Some (st, e, gs)\<close>
      by (cases \<open>searchFrom ?re b 0\<close>) auto
    from searchFrom_Some [OF this] obtain i where i: \<open>i \<le> length b\<close>
      \<open>matchHere ?re (drop i b) (0 + i) [] [] = Some (e, gs)\<close>
      by blast
    from i(2) number_match_iff [of \<open>drop i b\<close> \<open>0 + i\<close> e gs]
    obtain ds' where ds': \<open>ds' \<noteq> []\<close> \<open>list_all isDigit ds'\<close> \<open>drop i b = ''_'' @ ds' @ ''.html''\<close>
      by auto
    have \<open>b = take i b @ ''_'' @ ds' @ ''.html''\<close>
      using ds'(3) append_take_drop_id [of i b] by simp
    with ds'(1,2) assms show False by metis
  qed
  then show ?thesis
    by (simp add: extractChapterNumber_def firstGroup_def FindStringSubmatch_def)
qed

section \<open>Decoding a batch of files\<close>

lemma parseChaptersByLanguage_append:
  \<open>parseChaptersByLanguage (xs @ ys) lang =
     (case (parseChaptersByLanguage xs lang, parseChaptersByLanguage ys lang) of
        ((ws1, chs1), (ws2, chs2)) \<Rightarrow> (ws1 @ ws2, chs1 @ chs2))\<close>
  by (induction xs) (auto split: sum.splits prod.splits)

lemma valid_name_decodes:
  assumes \<open>Base f = pre @ ''_'' @ ds @ ''.html''\<close> \<open>ds \<noteq> []\<close> \<open>list_all isDigit ds\<close>
    and \<open>int (digitsVal ds) \<le> 2 ^ 63 - 1\<close>
  shows \<open>\<exists>ch. parseChapterFile f (Some content) lang = Inr ch \<and> Number ch = int (digitsVal ds)\<close>
proof -
  have \<open>extractChapterNumber (Base f) = ds\<close>
    using assms(1,2,3) by (rule extractChapterNumber_valid)
  then have \<open>Atoi (extractChapterNumber (Base f)) = Some (int (digitsVal ds))\<close>
    using Atoi_digits [OF assms(2,3)] assms(4) by simp
  from parseChapterFile_fields [OF this, of content lang] show ?thesis
    by blast
qed

lemma invalid_name_fails:
  assumes \<open>\<nexists>pre ds. Base f = pre @ ''_'' @ ds @ ''.html'' \<and> ds \<noteq> [] \<and> list_all isDigit ds \<and>
             int (digitsVal ds) \<le> 2 ^ 63 - 1\<close>
  shows \<open>parseChapterFile f (Some content) lang = Inl (InvalidChapterNumber (Base f))\<close>
proof -
  have \<open>Atoi (extractChapterNumber (Base f)) = None\<close>
  proof (cases \<open>\<exists>pre ds. Base f = pre @ ''_'' @ ds @ ''.html'' \<and> ds \<noteq> [] \<and> list_all isDigit ds\<close>)
    case True
    then obtain pre ds where d: \<open>Base f = pre @ ''_'' @ ds @ ''.html''\<close> \<open>ds \<noteq> []\<close>
      \<open>list_all isDigit ds\<close>
      by blast
    with assms have big: \<open>\<not> int (digitsVal ds) \<le> 2 ^ 63 - 1\<close>
      by blast
    have \<open>extractChapterNumber (Base f) = ds\<close>
      using d by (rule extractChapterNumber_valid)
    then show ?thesis
      using Atoi_digits [OF d(2,3)] big by simp
  next
    case False
    then have \<open>extractChapterNumber (Base f) = []\<close>
      by (rule extractChapterNumber_invalid)
    then show ?thesis
      by (simp add: Atoi_Nil)
  qed
  then show ?thesis
    using parseChapterFile_error by blast
qed

text \<open>
  C8, as the code has it. In a batch, each file is decoded on its own: whatever the files
  before and after it give, a file that fails adds one report and no chapter, and a
  file that succeeds adds its chapter. A readable file fails exactly when its name does
  not end in \<^verbatim>\<open>_<digits>.html\<close> with digits that fit the 64-bit \<^verbatim>\<open>int\<close>; when the name
  does end so, the file is decoded and the digits are the chapter's number, zero
  included.
\<close>

theorem batch_skips_unnumbered_files:
  \<open>parseChaptersByLanguage (before @ (f, d) # after) lang =
     (case (parseChaptersByLanguage before lang, parseChaptersByLanguage after lang) of
        ((ws1, chs1), (ws2, chs2)) \<Rightarrow>
          (case parseChapterFile f d lang of
             Inl err \<Rightarrow> (ws1 @ (f, err) # ws2, chs1 @ chs2)
           | Inr ch \<Rightarrow> (ws1 @ ws2, chs1 @ ch # chs2))) \<and>
   (Base f = pre @ ''_'' @ ds @ ''.html'' \<and> ds \<noteq> [] \<and> list_all isDigit ds \<and>
    int (digitsVal ds) \<le> 2 ^ 63 - 1 \<longrightarrow>
      (\<exists>ch. parseChapterFile f (Some content) lang = Inr ch \<and> Number ch = int (digitsVal ds))) \<and>
   ((\<nexists>pre ds. Base f' = pre @ ''_'' @ ds @ ''.html'' \<and> ds \<noteq> [] \<and> list_all isDigit ds \<and>
              int (digitsVal ds) \<le> 2 ^ 63 - 1) \<longrightarrow>
      parseChapterFile f' (Some content') lang = Inl (InvalidChapterNumber (Base f')))\<close>
proof (intro conjI impI)
  show \<open>parseChaptersByLanguage (before @ (f, d) # after) lang =
     (case (parseChaptersByLanguage before lang, parseChaptersByLanguage after lang) of
        ((ws1, chs1), (ws2, chs2)) \<Rightarrow>
          (case parseChapterFile f d lang of
             Inl err \<Rightarrow> (ws1 @ (f, err) # ws2, chs1 @ chs2)
           | Inr ch \<Rightarrow> (ws1 @ ws2, chs1 @ ch # chs2)))\<close>
    by (simp add: parseChaptersByLanguage_append split: sum.splits prod.splits)
next
  assume \<open>Base f = pre @ ''_'' @ ds @ ''.html'' \<and> ds \<noteq> [] \<and> list_all isDigit ds \<and>
    int (digitsVal ds) \<le> 2 ^ 63 - 1\<close>
  then show \<open>\<exists>ch. parseChapterFile f (Some content) lang = Inr ch \<and>
      Number ch = int (digitsVal ds)\<close>
    using valid_name_decodes by blast
next
  assume \<open>\<nexists>pre ds. Base f' = pre @ ''_'' @ ds @ ''.html'' \<and> ds \<noteq> [] \<and> list_all isDigit ds \<and>
              int (digitsVal ds) \<le> 2 ^ 63 - 1\<close>
  then show \<open>parseChapterFile f' (Some content') lang = Inl (InvalidChapterNumber (Base f'))\<close>
    by (rule invalid_name_fails)
qed

lemma Base_plain: \<open>Base ''capitulo_00.html'' = ''capitulo_00.html''\<close>
  \<open>Base ''capitulo_01.html'' = ''capitulo_01.html''\<close>
  \<open>Base ''capitulo_x.html'' = ''capitulo_x.html''\<close>
  by (simp_all add: Base_def)

lemma no_number_in_x:
  \<open>\<nexists>pre ds. ''capitulo_x.html'' = pre @ ''_'' @ ds @ ''.html'' \<and> ds \<noteq> [] \<and>
     list_all isDigit ds \<and> int (digitsVal ds) \<le> 2 ^ 63 - 1\<close>
proof
  assume \<open>\<exists>pre ds. ''capitulo_x.html'' = pre @ ''_'' @ ds @ ''.html'' \<and> ds \<noteq> [] \<and>
     list_all isDigit ds \<and> int (digitsVal ds) \<le> 2 ^ 63 - 1\<close>
  then obtain pre ds where d: \<open>''capitulo_x.html'' = pre @ ''_'' @ ds @ ''.html''\<close>
    \<open>ds \<noteq> []\<close> \<open>list_all isDigit ds\<close>
    by blast
  have \<open>''capitulo_x'' @ ''.html'' = (pre @ ''_'' @ ds) @ ''.html''\<close>
    using d(1) by simp
  then have \<open>''capitulo_x'' = pre @ ''_'' @ ds\<close>
    by (simp only: append_same_eq)
  then have \<open>last ''capitulo_x'' = last ds\<close>
    using d(2) by simp
  then have \<open>last ds = CHR ''x''\<close>
    by simp
  moreover have \<open>isDigit (last ds)\<close>
    using d(2,3) by (simp add: list_all_iff)
  ultimately show False
    by (simp add: isDigit_def)
qed

theorem batch_skips_unnumbered_files_witness:
  \<open>Base ''capitulo_01.html'' = ''capitulo'' @ ''_'' @ ''01'' @ ''.html'' \<and> ''01'' \<noteq> [] \<and>
   list_all isDigit ''01'' \<and> int (digitsVal ''01'') \<le> 2 ^ 63 - 1 \<and>
   (\<nexists>pre ds. Base ''capitulo_x.html'' = pre @ ''_'' @ ds @ ''.html'' \<and> ds \<noteq> [] \<and>
      list_all isDigit ds \<and> int (digitsVal ds) \<le> 2 ^ 63 - 1) \<and>
   (\<exists>ch. parseChapterFile ''capitulo_01.html'' (Some []) Spanish = Inr ch \<and> Number ch = 1) \<and>
   parseChapterFile ''capitulo_x.html'' (Some []) Spanish =
     Inl (InvalidChapterNumber ''capitulo_x.html'')\<close>
proof -
  have a: \<open>Base ''capitulo_01.html'' = ''capitulo'' @ ''_'' @ ''01'' @ ''.html'' \<and> ''01'' \<noteq> [] \<and>
     list_all isDigit ''01'' \<and> int (digitsVal ''01'') \<le> 2 ^ 63 - 1\<close>
    by (simp add: Base_plain isDigit_def digitsVal_def digitVal_def)
  have b: \<open>\<nexists>pre ds. Base ''capitulo_x.html'' = pre @ ''_'' @ ds @ ''.html'' \<and> ds \<noteq> [] \<and>
      list_all isDigit ds \<and> int (digitsVal ds) \<le> 2 ^ 63 - 1\<close>
    unfolding Base_plain by (rule no_number_in_x)
  have v: \<open>int (digitsVal ''01'') = 1\<close>
    by (simp add: digitsVal_def digitVal_def)
  from batch_skips_unnumbered_files
    [of \<open>[]\<close> \<open>''capitulo_01.html''\<close> \<open>Some []\<close> \<open>[]\<close> Spanish \<open>''capitulo''\<close> \<open>''01''\<close> \<open>[]\<close>
      \<open>''capitulo_x.html''\<close> \<open>[]\<close>]
  have \<open>(\<exists>ch. parseChapterFile ''capitulo_01.html'' (Some []) Spanish = Inr ch \<and>
            Number ch = int (digitsVal ''01'')) \<and>
        parseChapterFile ''capitulo_x.html'' (Some []) Spanish =
          Inl (InvalidChapterNumber (Base ''capitulo_x.html''))\<close>
    using a b by blast
  then show ?thesis
    using a b unfolding v Base_plain(3) by blast
qed

text \<open>
  A file named for chapter zero encodes no positive number, and it is decoded all the
  same: nothing is reported, and the batch holds a chapter with the number 0.
\<close>

theorem chapter_zero_is_decoded:
  \<open>fst (parseChaptersByLanguage [(''capitulo_00.html'', Some [])] Spanish) = [] \<and>
   map Number (snd (parseChaptersByLanguage [(''capitulo_00.html'', Some [])] Spanish)) = [0]\<close>
proof -
  have \<open>Base ''capitulo_00.html'' = ''capitulo'' @ ''_'' @ ''00'' @ ''.html''\<close>
    by (simp add: Base_plain)
  moreover have \<open>''00'' \<noteq> []\<close> \<open>list_all isDigit ''00''\<close> \<open>int (digitsVal ''00'') \<le> 2 ^ 63 - 1\<close>
    \<open>int (digitsVal ''00'') = 0\<close>
    by (simp_all add: isDigit_def digitsVal_def digitVal_def)
  ultimately obtain ch where
    \<open>parseChapterFile ''capitulo_00.html'' (Some []) Spanish = Inr ch\<close> \<open>Number ch = 0\<close>
    using valid_name_decodes [of \<open>''capitulo_00.html''\<close> \<open>''capitulo''\<close> \<open>''00''\<close> \<open>[]\<close> Spanish]
    by auto
  then show ?thesis
    by simp
qed

section \<open>The conditional parent\<close>

lemma matchHere_Bol:
  \<open>matchHere (Bol # r) s pos opened gs = Some x \<Longrightarrow>
     pos = 0 \<and> matchHere r s pos opened gs = Some x\<close>
  by (auto simp: matchHere.simps split: if_splits)

lemma matchHere_Open: \<open>matchHere (Open g # r) s pos opened gs = matchHere r s pos ((g, pos) # opened) gs\<close>
  by (simp add: matchHere.simps)

lemma matchHere_Close_here:
  \<open>matchHere (Close g # r) s pos ((g, start) # opened) gs =
     matchHere r s pos ((g, start) # opened) ((g, start, pos) # gs)\<close>
  by (simp add: matchHere.simps)

lemma matchHere_Nil: \<open>matchHere [] s pos opened gs = Some (pos, gs)\<close>
  by (simp add: matchHere.simps)

lemma qID_digits:
  assumes \<open>firstGroup qIDRe title = Some qNum\<close>
  shows \<open>qNum \<noteq> [] \<and> list_all isDigit qNum\<close>
proof -
  from assms obtain b e gs where found: \<open>searchFrom qIDRe title 0 = Some (b, e, gs)\<close>
    and q: \<open>qNum = groupText title gs 1\<close>
    by (auto simp: firstGroup_def FindStringSubmatch_def split: option.splits)
  from searchFrom_Some [OF found] obtain i where
    i: \<open>matchHere qIDRe (drop i title) (0 + i) [] [] = Some (e, gs)\<close>
    by blast
  from matchHere_Bol [OF i [unfolded qIDRe_def]] have i0: \<open>i = 0\<close>
    and m0': \<open>matchHere [Lit ''Q'', Open 1, Plus Digit, Close 1, Lit '':''] (drop i title) (0 + i)
       [] [] = Some (e, gs)\<close>
    by auto
  from m0' have m0: \<open>matchHere [Lit ''Q'', Open 1, Plus Digit, Close 1, Lit '':''] title 0 [] []
       = Some (e, gs)\<close>
    unfolding i0 by simp
  from matchHere_Lit_Some [OF m0] obtain s1 where s1: \<open>title = ''Q'' @ s1\<close>
    and m1: \<open>matchHere [Open 1, Plus Digit, Close 1, Lit '':''] s1 (0 + length ''Q'') [] []
       = Some (e, gs)\<close>
    by blast
  from m1 have \<open>matchHere [Plus Digit, Close 1, Lit '':''] s1 1 [(1, 1)] [] = Some (e, gs)\<close>
    by (simp add: matchHere_Open)
  from matchHere_Plus_Some [OF this] obtain k where k: \<open>1 \<le> k\<close>
    \<open>k \<le> length (takeWhile (inClass Digit) s1)\<close>
    \<open>matchHere [Close 1, Lit '':''] (drop k s1) (1 + k) [(1, 1)] [] = Some (e, gs)\<close>
    by blast
  from k(3) have \<open>matchHere [Lit '':''] (drop k s1) (1 + k) [(1, 1)] [(1, 1, 1 + k)] = Some (e, gs)\<close>
    by (simp add: matchHere_Close_here)
  from matchHere_Lit_Some [OF this] have gs: \<open>gs = [(1, 1, 1 + k)]\<close>
    by (auto simp: matchHere_Nil)
  have \<open>qNum = take k s1\<close>
    unfolding q gs s1 by (simp add: groupText_def slice_def)
  with take_takeWhile_all [OF k(2)] k(1) show ?thesis
    by (auto simp: list_all_iff)
qed

lemma findConditionalParent_digits:
  assumes \<open>ds \<noteq> []\<close> \<open>list_all isDigit ds\<close>
  shows \<open>findConditionalParent (''q'' @ ds) =
     (if 2 \<le> digitsVal ds \<and> int (digitsVal ds) \<le> 2 ^ 63 - 1
      then ''q'' @ itoa (int (digitsVal ds) - 1) else [])\<close>
proof -
  have \<open>TrimPrefix (''q'' @ ds) ''q'' = ds\<close>
    by (simp add: TrimPrefix_def)
  then show ?thesis
    unfolding findConditionalParent_def Let_def
    using Atoi_digits [OF assms] by auto
qed

lemma extractQuestion_shape:
  assumes \<open>extractQuestion content m sectionEnd = Some q\<close>
  shows \<open>\<exists>ds. ds \<noteq> [] \<and> list_all isDigit ds \<and> ID q = ''q'' @ ds \<and>
     ConditionalOn q =
       (if MatchString
             [Lit (''<div class="question-section conditional-section hidden" id="'' @
                   ID q @ ''-section">'')] content
        then findConditionalParent (ID q) else [])\<close>
proof -
  obtain m0 m1 gs where m: \<open>m = (m0, m1, gs)\<close>
    by (cases m) auto
  from assms obtain qNum where qn: \<open>firstGroup qIDRe (groupText content gs 1) = Some qNum\<close>
    unfolding extractQuestion_def m by (auto simp: Let_def split: option.splits)
  from assms qn have \<open>ID q = ''q'' @ qNum\<close>
    \<open>ConditionalOn q =
       (if MatchString
             [Lit (''<div class="question-section conditional-section hidden" id="'' @
                   (''q'' @ qNum) @ ''-section">'')] content
        then findConditionalParent (''q'' @ qNum) else [])\<close>
    unfolding extractQuestion_def m by (auto simp: Let_def)
  with qID_digits [OF qn] show ?thesis
    by auto
qed

lemma extractQuestionsLoop_shape:
  assumes \<open>q \<in> set (extractQuestionsLoop content ms)\<close>
  shows \<open>\<exists>m sectionEnd. extractQuestion content m sectionEnd = Some q\<close>
  using assms
proof (induction ms)
  case Nil
  then show ?case by simp
next
  case (Cons m ms)
  let ?sectionEnd = \<open>case ms of [] \<Rightarrow> length content | (n0, n1, ngs) # rest \<Rightarrow> n0\<close>
  show ?case
  proof (cases \<open>extractQuestion content m ?sectionEnd\<close>)
    case None
    with Cons.prems have \<open>q \<in> set (extractQuestionsLoop content ms)\<close>
      by (simp add: Let_def)
    then show ?thesis
      by (rule Cons.IH)
  next
    case (Some q0)
    with Cons.prems have \<open>q = q0 \<or> q \<in> set (extractQuestionsLoop content ms)\<close>
      by (simp add: Let_def)
    then show ?thesis
      using Some Cons.IH by blast
  qed
qed

lemma detectConditionals_shape:
  assumes \<open>q' \<in> set (detectConditionals content qs)\<close>
  shows \<open>\<exists>q \<in> set qs. ID q' = ID q \<and>
     ConditionalOn q' =
       (if MatchString (hiddenRe (ID q @ ''-section'')) content \<or>
           MatchString (classFirstRe (ID q @ ''-section'')) content
        then findConditionalParent (ID q) else ConditionalOn q)\<close>
  using assms by (auto simp: detectConditionals_def Let_def)

lemma decoded_question_parent:
  assumes \<open>q \<in> set (detectConditionals content (extractQuestions content))\<close>
  shows \<open>\<exists>ds. ds \<noteq> [] \<and> list_all isDigit ds \<and> ID q = ''q'' @ ds \<and>
     ConditionalOn q =
       (if markedConditional content (ID q) \<and> 2 \<le> digitsVal ds \<and> int (digitsVal ds) \<le> 2 ^ 63 - 1
        then ''q'' @ itoa (int (digitsVal ds) - 1) else [])\<close>
proof -
  from detectConditionals_shape [OF assms] obtain q0 where
    q0: \<open>q0 \<in> set (extractQuestions content)\<close> \<open>ID q = ID q0\<close>
    \<open>ConditionalOn q =
       (if MatchString (hiddenRe (ID q0 @ ''-section'')) content \<or>
           MatchString (classFirstRe (ID q0 @ ''-section'')) content
        then findConditionalParent (ID q0) else ConditionalOn q0)\<close>
    by blast
  from q0(1) obtain m sectionEnd where \<open>extractQuestion content m sectionEnd = Some q0\<close>
    unfolding extractQuestions_def using extractQuestionsLoop_shape by blast
  from extractQuestion_shape [OF this] obtain ds where
    ds: \<open>ds \<noteq> []\<close> \<open>list_all isDigit ds\<close> \<open>ID q0 = ''q'' @ ds\<close>
    \<open>ConditionalOn q0 =
       (if MatchString
             [Lit (''<div class="question-section conditional-section hidden" id="'' @
                   ID q0 @ ''-section">'')] content
        then findConditionalParent (ID q0) else [])\<close>
    by blast
  have \<open>ConditionalOn q =
      (if markedConditional content (ID q0) then findConditionalParent (ID q0) else [])\<close>
    unfolding q0(3) ds(4) markedConditional_def by auto
  then show ?thesis
    using ds q0(2) findConditionalParent_digits [OF ds(1,2)]
    by (intro exI [of _ ds]) auto
qed

text \<open>
  C5. Every question of a decoded chapter has an id \<^verbatim>\<open>q<digits>\<close>. When the page marks the
  question as conditional (one of the three tests of the decoder on the block keyed to
  the id succeeds), its \<^verbatim>\<open>ConditionalOn\<close> is \<^verbatim>\<open>q<N-1>\<close>, where \<open>N\<close> is the number the digits
  denote, whatever the page wires the question to; it is empty when \<open>N\<close> is 0 or 1, when
  the digits do not fit the 64-bit \<^verbatim>\<open>int\<close>, and when the page does not mark the question.
\<close>

theorem conditional_parent_is_predecessor:
  assumes \<open>parseChapterFile f (Some content) lang = Inr ch\<close>
    and \<open>q \<in> set (Questions ch)\<close>
  shows \<open>\<exists>ds. ds \<noteq> [] \<and> list_all isDigit ds \<and> ID q = ''q'' @ ds \<and>
     ConditionalOn q =
       (if markedConditional content (ID q) \<and> 2 \<le> digitsVal ds \<and> int (digitsVal ds) \<le> 2 ^ 63 - 1
        then ''q'' @ itoa (int (digitsVal ds) - 1) else [])\<close>
proof -
  from assms(1) obtain num where \<open>Atoi (extractChapterNumber (Base f)) = Some num\<close>
    using parseChapterFile_error [of f content lang]
    by (cases \<open>Atoi (extractChapterNumber (Base f))\<close>) auto
  from parseChapterFile_fields [OF this, of content lang] assms(1)
  have \<open>Questions ch = detectConditionals content (extractQuestions content)\<close>
    by auto
  with assms(2) show ?thesis
    using decoded_question_parent by simp
qed

lemmas eval_match =
  matchHere.simps tryEach.simps inClass.simps isDigit_def searchFrom.simps findAllFrom.simps
  FindAll_def FindStringSubmatch_def MatchString_def firstGroup_def groupText_def slice_def

lemma hiddenBlockPage_questions:
  \<open>detectConditionals hiddenBlockPage (extractQuestions hiddenBlockPage) =
     [\<lparr>ID = ''q2'', Question.Title = ''Q2: How many?'', Type = [], Options = [],
       Required = False, ConditionalOn = ''q1''\<rparr>]\<close>
proof -
  have p: \<open>findConditionalParent ''q2'' = ''q1''\<close>
    by (simp add: findConditionalParent_def TrimPrefix_def Atoi_def isDigit_def digitsVal_def
        digitVal_def itoa_def natToDec.simps digitChar_def)
  have e: \<open>extractQuestions hiddenBlockPage =
     [\<lparr>ID = ''q2'', Question.Title = ''Q2: How many?'', Type = [], Options = [],
       Required = False, ConditionalOn = ''q1''\<rparr>]\<close>
    by (simp add: hiddenBlockPage_def extractQuestions_def questionTitleRe_def qIDRe_def
        extractQuestion_def eval_match Contains_def p)
  show ?thesis
    unfolding e
    by (simp add: detectConditionals_def hiddenBlockPage_def hiddenRe_def classFirstRe_def
        eval_match p)
qed

lemma hiddenBlockPage_marked: \<open>markedConditional hiddenBlockPage ''q2''\<close>
  by (simp add: markedConditional_def hiddenBlockPage_def eval_match)

theorem conditional_parent_is_predecessor_witness:
  \<open>\<exists>ch. parseChapterFile ''chapter_01.html'' (Some hiddenBlockPage) English = Inr ch \<and>
     (\<exists>q. q \<in> set (Questions ch) \<and> ID q = ''q2'' \<and>
        markedConditional hiddenBlockPage (ID q) \<and> ConditionalOn q = ''q1'')\<close>
proof -
  have \<open>Base ''chapter_01.html'' = ''chapter'' @ ''_'' @ ''01'' @ ''.html''\<close>
    by (simp add: Base_def)
  moreover have \<open>''01'' \<noteq> []\<close> \<open>list_all isDigit ''01''\<close> \<open>int (digitsVal ''01'') \<le> 2 ^ 63 - 1\<close>
    by (simp_all add: isDigit_def digitsVal_def digitVal_def)
  ultimately obtain ch where
    ch: \<open>parseChapterFile ''chapter_01.html'' (Some hiddenBlockPage) English = Inr ch\<close>
    using valid_name_decodes [of \<open>''chapter_01.html''\<close> \<open>''chapter''\<close> \<open>''01''\<close> hiddenBlockPage English]
    by auto
  let ?q = \<open>\<lparr>ID = ''q2'', Question.Title = ''Q2: How many?'', Type = [], Options = [],
       Required = False, ConditionalOn = ''q1''\<rparr>\<close>
  have \<open>Atoi (extractChapterNumber (Base ''chapter_01.html'')) \<noteq> None\<close>
    using ch parseChapterFile_error [of \<open>''chapter_01.html''\<close> hiddenBlockPage English]
    by (cases \<open>Atoi (extractChapterNumber (Base ''chapter_01.html''))\<close>) auto
  then obtain num where \<open>Atoi (extractChapterNumber (Base ''chapter_01.html'')) = Some num\<close>
    by auto
  from parseChapterFile_fields [OF this, of hiddenBlockPage English] ch
  have qs: \<open>Questions ch = [?q]\<close>
    using hiddenBlockPage_questions by auto
  then have mem: \<open>?q \<in> set (Questions ch)\<close>
    by simp
  from conditional_parent_is_predecessor [OF ch mem] obtain ds where
    ds: \<open>ID ?q = ''q'' @ ds\<close>
    \<open>ConditionalOn ?q =
       (if markedConditional hiddenBlockPage (ID ?q) \<and> 2 \<le> digitsVal ds \<and>
           int (digitsVal ds) \<le> 2 ^ 63 - 1
        then ''q'' @ itoa (int (digitsVal ds) - 1) else [])\<close>
    by blast
  from ds(2) have c: \<open>ConditionalOn ?q = ''q1''\<close>
    by simp
  show ?thesis
    using ch mem c hiddenBlockPage_marked
    by (intro exI [of _ ch] conjI exI [of _ ?q]) simp_all
qed

section \<open>Decoding what the encoder wrote\<close>











lemma isDigit_not_slash: \<open>isDigit x \<Longrightarrow> x \<noteq> CHR ''/''\<close>
  by (auto simp: isDigit_def)

lemma Base_of_file:
  assumes \<open>CHR ''/'' \<notin> set name\<close> \<open>name \<noteq> []\<close>
  shows \<open>Base (dir @ ''/'' @ name) = name\<close>
proof -
  have r: \<open>rev (dir @ ''/'' @ name) = rev name @ CHR ''/'' # rev dir\<close>
    by simp
  obtain x xs where x: \<open>rev name = x # xs\<close>
    using assms(2) by (cases \<open>rev name\<close>) auto
  then have \<open>x \<in> set name\<close>
    by (metis list.set_intros(1) set_rev)
  with assms(1) have \<open>x \<noteq> CHR ''/''\<close>
    by auto
  then have d: \<open>dropWhile (\<lambda>c. c = CHR ''/'') (rev name @ CHR ''/'' # rev dir) =
      rev name @ CHR ''/'' # rev dir\<close>
    unfolding x by simp
  have t: \<open>takeWhile (\<lambda>c. c \<noteq> CHR ''/'') (rev name @ CHR ''/'' # rev dir) = rev name\<close>
    using assms(1) by (simp add: takeWhile_append)
  have ne: \<open>dir @ ''/'' @ name \<noteq> []\<close>
    by simp
  show ?thesis
    unfolding Base_def Let_def r d
    using ne t by (simp del: rev_append rev.simps add: r [symmetric])
qed











end
